theory Spec2Isabelle
  imports Main "HOL-Library.Sublist"
begin

section \<open>Python text primitives used by configure_booster.py\<close>

text \<open>
  A Python \<open>str\<close> is modelled as a \<open>string\<close> holding its UTF-8 bytes. Substring tests
  (\<open>a in b\<close>, \<^const>\<open>sublist\<close>), \<open>startswith\<close> (\<^const>\<open>prefix\<close>), concatenation and equality are
  the same on code points and on their UTF-8 bytes. Whitespace and line boundaries are
  the ASCII ones that Python's \<open>str\<close> methods recognise; the non-ASCII ones (U+0085,
  U+00A0, U+2028, ...) and non-ASCII case mappings are outside the model.
\<close>

abbreviation LF :: char where "LF \<equiv> CHR 0x0A"
abbreviation CR :: char where "CR \<equiv> CHR 0x0D"

definition py_isspace :: "char \<Rightarrow> bool" where
  "py_isspace c = (c \<in> set [CHR 0x09, CHR 0x0A, CHR 0x0B, CHR 0x0C, CHR 0x0D,
                             CHR 0x1C, CHR 0x1D, CHR 0x1E, CHR 0x1F, CHR 0x20])"

text \<open>\<open>s.lstrip()\<close> and \<open>s.strip()\<close>.\<close>

definition py_lstrip :: "string \<Rightarrow> string" where
  "py_lstrip s = dropWhile py_isspace s"

definition py_strip :: "string \<Rightarrow> string" where
  "py_strip s = rev (dropWhile py_isspace (rev (dropWhile py_isspace s)))"

text \<open>\<open>s.lower()\<close> on ASCII letters.\<close>

definition py_lower_char :: "char \<Rightarrow> char" where
  "py_lower_char c =
     (let n = (of_char c :: nat) in if 65 \<le> n \<and> n \<le> 90 then char_of (n + 32) else c)"

definition py_lower :: "string \<Rightarrow> string" where
  "py_lower s = map py_lower_char s"

text \<open>\<open>s.split()\<close>: the maximal runs of non-whitespace characters, in order.\<close>

fun py_split :: "string \<Rightarrow> string list" where
  "py_split [] = []"
| "py_split (c # cs) =
     (if py_isspace c then py_split cs
      else if cs = [] \<or> py_isspace (hd cs) then [c] # py_split cs
      else (case py_split cs of [] \<Rightarrow> [[c]] | t # ts \<Rightarrow> (c # t) # ts))"

text \<open>\<open>s.split(sep)\<close> for a one-character separator: never empty, \<open>"".split(".")\<close> is \<open>[""]\<close>.\<close>

fun py_split_on :: "char \<Rightarrow> string \<Rightarrow> string list" where
  "py_split_on sep [] = [[]]"
| "py_split_on sep (c # cs) =
     (if c = sep then [] # py_split_on sep cs
      else (case py_split_on sep cs of [] \<Rightarrow> [[c]] | t # ts \<Rightarrow> (c # t) # ts))"

text \<open>
  \<open>s.splitlines()\<close>: lines without their terminators; the terminators are
  \<open>\n\<close>, \<open>\r\<close>, \<open>\r\n\<close>, \<open>\v\<close>, \<open>\f\<close>, \<open>\x1c\<close>, \<open>\x1d\<close>, \<open>\x1e\<close>; a final
  terminator opens no further line.
\<close>

definition py_linebreak :: "char \<Rightarrow> bool" where
  "py_linebreak c = (c \<in> set [CHR 0x0A, CHR 0x0B, CHR 0x0C, CHR 0x0D, CHR 0x1C, CHR 0x1D, CHR 0x1E])"

fun py_splitlines :: "string \<Rightarrow> string list" where
  "py_splitlines [] = []"
| "py_splitlines (c # cs) =
     (if c = CR then
        (case cs of
           [] \<Rightarrow> [[]]
         | d # ds \<Rightarrow> if d = LF then [] # py_splitlines ds else [] # py_splitlines cs)
      else if py_linebreak c then [] # py_splitlines cs
      else (case py_splitlines cs of [] \<Rightarrow> [[c]] | l # ls \<Rightarrow> (c # l) # ls))"

section \<open>Text-mode file access\<close>

text \<open>
  \<open>open(path, "r")\<close> reads with universal newlines: every \<open>\r\n\<close> and every lone
  \<open>\r\<close> arrives as \<open>\n\<close>. \<open>readlines()\<close> and iteration over the file yield the lines
  with their \<open>\n\<close> kept; only the last line may lack it. \<open>open(path, "w")\<close> truncates,
  and on Linux \<open>write\<close> stores the text as it is.
\<close>

fun universal_newlines :: "string \<Rightarrow> string" where
  "universal_newlines [] = []"
| "universal_newlines (c # cs) =
     (if c = CR then
        (case cs of
           [] \<Rightarrow> [LF]
         | d # ds \<Rightarrow> if d = LF then LF # universal_newlines ds else LF # universal_newlines cs)
      else c # universal_newlines cs)"

fun keep_ends :: "string \<Rightarrow> string list" where
  "keep_ends [] = []"
| "keep_ends (c # cs) =
     (if c = LF then [LF] # keep_ends cs
      else (case keep_ends cs of [] \<Rightarrow> [[c]] | l # ls \<Rightarrow> (c # l) # ls))"

definition py_readlines :: "string \<Rightarrow> string list" where
  "py_readlines content = keep_ends (universal_newlines content)"

section \<open>Data model\<close>

record WifiConfig =
  ssid :: string
  interface :: string
  ip :: string
  subnet :: string
  gateway :: string
  password :: string
  dns :: string

text \<open>
  What \<open>run_command\<close> hands back: a \<open>CompletedProcess\<close>, or the \<open>CalledProcessError\<close>
  it caught; both carry these three attributes.
\<close>

record CommandResult =
  returncode :: int
  stdout :: string
  stderr :: string

section \<open>Effects: exceptions, the event trace, the outside world\<close>

datatype exn = ValueError | IndexError | EOFError | SystemExit int

datatype 'a outcome = Return 'a | Raise exn

text \<open>
  Everything the tool does to its surroundings, in the order it happens: a child
  process started with an argument vector, the configuration file rewritten with a new
  content, a \<open>print\<close> call, the prompt of an \<open>input\<close> call, and the line that
  \<open>run_command\<close> prints when it catches \<open>CalledProcessError\<close> (command joined by
  blanks, then Python's text of the exception; the event keeps the command and the exit
  code, the text is not rendered).
\<close>

datatype event =
    Exec "string list"
  | Write string
  | Print string
  | Prompt string
  | PrintCalledProcessError "string list" int

text \<open>
  The child processes are the outside world: its answer to a command may depend on
  every command run before it. Every command is taken to start (the programs are
  installed), so that \<open>subprocess.run\<close> comes back with an exit code and the two
  captured texts.
\<close>

type_synonym world = "string list list \<Rightarrow> string list \<Rightarrow> CommandResult"

text \<open>
  The state threaded through the program: the trace, the content of
  \<open>../src/brain/config/config.yaml\<close> (taken to exist and to be readable and writable), the
  lines still to come on standard input, and the module-level \<open>config\<close> object.
\<close>

record state =
  events :: "event list"
  config_yaml :: string
  stdin :: "string list"
  config :: WifiConfig

type_synonym 'a prog = "state \<Rightarrow> 'a outcome \<times> state"

definition return :: "'a \<Rightarrow> 'a prog" where
  "return v st = (Return v, st)"

definition raise :: "exn \<Rightarrow> 'a prog" where
  "raise e st = (Raise e, st)"

definition and_then :: "'a prog \<Rightarrow> ('a \<Rightarrow> 'b prog) \<Rightarrow> 'b prog" where
  "and_then m k st =
     (case m st of
        (Return v, st') \<Rightarrow> k v st'
      | (Raise e, st') \<Rightarrow> (Raise e, st'))"

definition before :: "unit prog \<Rightarrow> 'b prog \<Rightarrow> 'b prog" where
  "before m k = and_then m (\<lambda>_. k)"

definition emit :: "event list \<Rightarrow> unit prog" where
  "emit evs st = (Return (), st\<lparr>events := events st @ evs\<rparr>)"

definition say :: "string \<Rightarrow> unit prog" where
  "say msg = emit [Print msg]"

text \<open>
  \<open>input(prompt)\<close>: the next line of standard input, without its line end;
  \<open>EOFError\<close> when there is none.
\<close>

definition py_input :: "string \<Rightarrow> string prog" where
  "py_input prompt st =
     (case stdin st of
        [] \<Rightarrow> (Raise EOFError, st\<lparr>events := events st @ [Prompt prompt]\<rparr>)
      | line # rest \<Rightarrow>
          (Return line, st\<lparr>events := events st @ [Prompt prompt], stdin := rest\<rparr>))"

fun executed :: "event list \<Rightarrow> string list list" where
  "executed [] = []"
| "executed (Exec cmd # evs) = cmd # executed evs"
| "executed (_ # evs) = executed evs"

text \<open>\<open>subprocess.run(cmd, ...)\<close> without \<open>check\<close>.\<close>

definition subprocess_run :: "world \<Rightarrow> string list \<Rightarrow> CommandResult prog" where
  "subprocess_run w cmd st =
     (Return (w (executed (events st)) cmd), st\<lparr>events := events st @ [Exec cmd]\<rparr>)"

definition run_command :: "world \<Rightarrow> string list \<Rightarrow> bool \<Rightarrow> CommandResult prog" where
  "run_command w cmd check =
     and_then (subprocess_run w cmd) (\<lambda>result.
       if check \<and> returncode result \<noteq> 0
       then before (emit [PrintCalledProcessError cmd (returncode result)]) (return result)
       else return result)"

text \<open>Reading and rewriting the configuration file.\<close>

definition read_config_lines :: "string list prog" where
  "read_config_lines st = (Return (py_readlines (config_yaml st)), st)"

definition write_config :: "string \<Rightarrow> unit prog" where
  "write_config content st =
     (Return (), st\<lparr>events := events st @ [Write content], config_yaml := content\<rparr>)"

section \<open>Network queries\<close>

definition check_interface_exists :: "world \<Rightarrow> string \<Rightarrow> bool prog" where
  "check_interface_exists w iface =
     and_then (run_command w [''nmcli'', ''device'', ''show'', iface] False) (\<lambda>result.
       return (returncode result = 0))"

definition interfaces_step :: "string list \<Rightarrow> string \<Rightarrow> string list" where
  "interfaces_step interfaces line =
     (if py_strip line \<noteq> [] \<and> sublist ''wifi'' (py_lower line) then
        (let parts = py_split line in
         if length parts \<ge> 1 then
           (let interface_name = parts ! 0 in
            if interface_name \<noteq> [] \<and> \<not> prefix ''DEVICE'' interface_name
            then interfaces @ [interface_name] else interfaces)
         else interfaces)
      else interfaces)"

definition get_available_interfaces :: "world \<Rightarrow> string list prog" where
  "get_available_interfaces w =
     and_then (run_command w [''nmcli'', ''device''] False) (\<lambda>result.
       if returncode result \<noteq> 0 then return []
       else return (foldl interfaces_step [] (py_splitlines (stdout result))))"

definition networks_step :: "string list \<Rightarrow> string \<Rightarrow> string list" where
  "networks_step networks line =
     (if py_strip line \<noteq> [] \<and> \<not> prefix ''IN-USE'' line then
        (let parts = py_split line in
         if length parts \<ge> 2 then
           (let ssid_name = parts ! 1 in
            if ssid_name \<notin> set networks \<and> ssid_name \<noteq> ''SSID''
            then networks @ [ssid_name] else networks)
         else networks)
      else networks)"

definition get_available_networks :: "world \<Rightarrow> string list prog" where
  "get_available_networks w =
     and_then (run_command w [''nmcli'', ''device'', ''wifi'', ''list''] False) (\<lambda>result.
       if returncode result \<noteq> 0 then return []
       else return (foldl networks_step [] (py_splitlines (stdout result))))"

section \<open>Connection management\<close>

definition disconnect_current :: "world \<Rightarrow> WifiConfig \<Rightarrow> unit prog" where
  "disconnect_current w cfg =
     before (say (''Disconnecting from current WiFi on '' @ interface cfg @ ''...''))
       (and_then (run_command w [''nmcli'', ''device'', ''disconnect'', interface cfg] False)
          (\<lambda>_. return ()))"

definition create_connection :: "world \<Rightarrow> WifiConfig \<Rightarrow> bool prog" where
  "create_connection w cfg =
     before (say (''Creating connection to '' @ ssid cfg @ '' with static IP ''
                    @ ip cfg @ ''/'' @ subnet cfg @ ''...''))
    (and_then (run_command w [''nmcli'', ''connection'', ''delete'', ssid cfg] False) (\<lambda>_.
     and_then (run_command w
        [''nmcli'', ''connection'', ''add'',
         ''type'', ''wifi'',
         ''con-name'', ssid cfg,
         ''ifname'', interface cfg,
         ''ssid'', ssid cfg,
         ''ip4'', ip cfg @ ''/'' @ subnet cfg,
         ''gw4'', gateway cfg,
         ''ipv4.dns'', dns cfg,
         ''ipv4.method'', ''manual''] True) (\<lambda>result.
       if returncode result \<noteq> 0 then
         before (say ''Failed to create connection'') (return False)
       else if password cfg \<noteq> [] then
         before (say ''Setting WiFi password...'')
        (and_then (run_command w
           [''nmcli'', ''connection'', ''modify'', ssid cfg,
            ''wifi-sec.key-mgmt'', ''wpa-psk'',
            ''wifi-sec.psk'', password cfg] True) (\<lambda>_.
         return True))
       else return True)))"

definition activate_connection :: "world \<Rightarrow> WifiConfig \<Rightarrow> bool prog" where
  "activate_connection w cfg =
     before (say (''Activating connection to '' @ ssid cfg @ ''...''))
    (and_then (run_command w [''nmcli'', ''connection'', ''up'', ssid cfg] True) (\<lambda>result.
     return (returncode result = 0)))"

section \<open>verify_connection\<close>

text \<open>The two marks of the report, U+2713 and U+2717, and the apostrophe.\<close>

abbreviation check_mark :: string where "check_mark \<equiv> [CHR 0xE2, CHR 0x9C, CHR 0x93]"
abbreviation cross_mark :: string where "cross_mark \<equiv> [CHR 0xE2, CHR 0x9C, CHR 0x97]"
abbreviation apostrophe :: string where "apostrophe \<equiv> [CHR 0x27]"

text \<open>
  The function is one sequence of five blocks, each headed by a comment in the source;
  every block receives the flag \<open>all_good\<close> and hands it on.
\<close>

text \<open>\<open># Check if connection is active\<close>\<close>

definition verify_active :: "world \<Rightarrow> WifiConfig \<Rightarrow> bool \<Rightarrow> bool prog" where
  "verify_active w cfg all_good =
     and_then (run_command w [''nmcli'', ''connection'', ''show'', ''--active''] True) (\<lambda>result.
       if \<not> sublist (ssid cfg) (stdout result) then
         before (say (cross_mark @ '' Connection '' @ apostrophe @ ssid cfg @ apostrophe
                        @ '' is not active''))
           (return False)
       else
         before (say (check_mark @ '' Connection '' @ apostrophe @ ssid cfg @ apostrophe
                        @ '' is active''))
           (return all_good))"

text \<open>\<open># Check IP address and subnet\<close>\<close>

definition verify_ip :: "world \<Rightarrow> WifiConfig \<Rightarrow> bool \<Rightarrow> bool prog" where
  "verify_ip w cfg all_good =
     and_then (run_command w [''ip'', ''addr'', ''show'', interface cfg] True) (\<lambda>result.
       if returncode result \<noteq> 0 then
         before (say (cross_mark @ '' Could not get IP information for '' @ interface cfg))
           (return False)
       else
         (let expected_ip_subnet = ip cfg @ ''/'' @ subnet cfg;
              found_correct_ip =
                list_ex (\<lambda>line. sublist ''inet '' line \<and> sublist expected_ip_subnet line)
                  (py_splitlines (stdout result))
          in if found_correct_ip then
               before (say (check_mark @ '' IP '' @ expected_ip_subnet @ '' is configured on ''
                              @ interface cfg))
                 (return all_good)
             else
               before (say (cross_mark @ '' IP '' @ expected_ip_subnet
                              @ '' is not configured on '' @ interface cfg))
              (before (say (''Current IPs on '' @ interface cfg @ '':''))
              (before (emit (map (\<lambda>line. Print (''  '' @ py_strip line))
                               (filter (\<lambda>line. sublist ''inet '' line)
                                  (py_splitlines (stdout result)))))
                 (return False)))))"

text \<open>\<open># Check gateway\<close>\<close>

definition verify_gateway :: "world \<Rightarrow> WifiConfig \<Rightarrow> bool \<Rightarrow> bool prog" where
  "verify_gateway w cfg all_good =
     and_then (run_command w [''ip'', ''route'', ''show'', ''default''] True) (\<lambda>result.
       if sublist (gateway cfg) (stdout result) then
         before (say (check_mark @ '' Default gateway '' @ gateway cfg @ '' is configured''))
           (return all_good)
       else
         before (say (cross_mark @ '' Default gateway '' @ gateway cfg @ '' is not configured''))
        (before (say ''Current default routes:'')
        (before (emit (map (\<lambda>line. Print (''  '' @ py_strip line))
                         (filter (\<lambda>line. sublist ''default'' line)
                            (py_splitlines (stdout result)))))
           (return False))))"

text \<open>\<open># Check DNS\<close>\<close>

definition verify_dns :: "world \<Rightarrow> WifiConfig \<Rightarrow> bool \<Rightarrow> bool prog" where
  "verify_dns w cfg all_good =
     and_then (run_command w [''cat'', ''/etc/resolv.conf''] True) (\<lambda>result.
       if returncode result = 0 \<and> sublist (dns cfg) (stdout result) then
         before (say (check_mark @ '' DNS server '' @ dns cfg @ '' is configured''))
           (return all_good)
       else
         before (say (cross_mark @ '' DNS server '' @ dns cfg @ '' is not configured''))
        (before (say ''Current DNS servers:'')
        (before (emit (map (\<lambda>line. Print (''  '' @ py_strip line))
                         (filter (\<lambda>line. prefix ''nameserver'' line)
                            (py_splitlines (stdout result)))))
           (return False))))"

text \<open>
  \<open># Check SSID connection\<close>: the loop leaves at the first row that names the
  interface between blanks, holds a star and has two tokens.
\<close>

fun find_connected_ssid :: "string \<Rightarrow> string list \<Rightarrow> string option" where
  "find_connected_ssid iface [] = None"
| "find_connected_ssid iface (line # rest) =
     (if sublist ('' '' @ iface @ '' '') line \<and> sublist ''*'' line then
        (let parts = py_split line in
         if length parts \<ge> 2 then Some (parts ! 1)
         else find_connected_ssid iface rest)
      else find_connected_ssid iface rest)"

text \<open>How an f-string shows a value that is \<open>None\<close> or a string.\<close>

definition py_format :: "string option \<Rightarrow> string" where
  "py_format v = (case v of None \<Rightarrow> ''None'' | Some s \<Rightarrow> s)"

definition verify_ssid :: "world \<Rightarrow> WifiConfig \<Rightarrow> bool \<Rightarrow> bool prog" where
  "verify_ssid w cfg all_good =
     and_then (run_command w [''nmcli'', ''device'', ''wifi'', ''list'', ''--rescan'', ''no''] True)
       (\<lambda>result.
       if returncode result = 0 then
         (let connected_ssid =
                find_connected_ssid (interface cfg) (py_splitlines (stdout result))
          in if connected_ssid = Some (ssid cfg) then
               before (say (check_mark @ '' Connected to SSID '' @ apostrophe @ ssid cfg
                              @ apostrophe))
                 (return all_good)
             else
               before (say (cross_mark @ '' Not connected to SSID '' @ apostrophe @ ssid cfg
                              @ apostrophe @ '' (connected to: '' @ py_format connected_ssid
                              @ '')''))
                 (return False))
       else
         before (say (cross_mark @ '' Could not verify SSID connection''))
           (return False))"

definition verify_connection :: "world \<Rightarrow> WifiConfig \<Rightarrow> bool prog" where
  "verify_connection w cfg =
     before (say ''Verifying configuration...'')
    (and_then (verify_active w cfg True) (\<lambda>all_good.
     and_then (verify_ip w cfg all_good) (\<lambda>all_good.
     and_then (verify_gateway w cfg all_good) (\<lambda>all_good.
     and_then (verify_dns w cfg all_good) (\<lambda>all_good.
     and_then (verify_ssid w cfg all_good) (\<lambda>all_good.
     return all_good))))))"

section \<open>Showing and editing the configuration\<close>

abbreviation rule50 :: string where "rule50 \<equiv> replicate 50 CHR ''=''"

definition display_config :: "WifiConfig \<Rightarrow> unit prog" where
  "display_config cfg =
     emit [Print ([LF] @ rule50),
           Print ''CURRENT WIFI CONFIGURATION'',
           Print rule50,
           Print (''SSID:           '' @ ssid cfg),
           Print (''Interface:      '' @ interface cfg),
           Print (''IP Address:     '' @ ip cfg @ ''/'' @ subnet cfg),
           Print (''Gateway:        '' @ gateway cfg),
           Print (''DNS Server:     '' @ dns cfg),
           Print (''Password:       '' @ (if password cfg \<noteq> [] then password cfg else ''(none)'')),
           Print rule50]"

text \<open>
  \<open>str(n)\<close> for a natural number; \<open>s.isdigit()\<close> and \<open>int(s)\<close> on ASCII digits
  (digits beyond ASCII and the interpreter's limit on the length of a digit string are
  outside the model).
\<close>

fun py_str_nat :: "nat \<Rightarrow> string" where
  "py_str_nat n =
     (if n < 10 then [char_of (48 + n)]
      else py_str_nat (n div 10) @ [char_of (48 + n mod 10)])"

definition py_isdigit :: "string \<Rightarrow> bool" where
  "py_isdigit s = (s \<noteq> [] \<and> list_all (\<lambda>c. 48 \<le> (of_char c :: nat) \<and> (of_char c :: nat) \<le> 57) s)"

definition py_int :: "string \<Rightarrow> nat" where
  "py_int s = foldl (\<lambda>acc c. 10 * acc + ((of_char c :: nat) - 48)) 0 s"

definition get_config :: "WifiConfig prog" where
  "get_config st = (Return (config st), st)"

definition set_config :: "(WifiConfig \<Rightarrow> WifiConfig) \<Rightarrow> unit prog" where
  "set_config f st = (Return (), st\<lparr>config := f (config st)\<rparr>)"

text \<open>
  The editor is a sequence of seven blocks, one per field and each headed by a comment in
  the source; \<open>config\<close> is changed in place.
\<close>

text \<open>\<open># SSID\<close>\<close>

definition edit_ssid :: "unit prog" where
  "edit_ssid =
     and_then get_config (\<lambda>cfg.
     before (say ([LF] @ ''Current SSID: '' @ ssid cfg))
    (and_then (py_input ''New SSID (or Enter to keep): '') (\<lambda>line.
     let new_ssid = py_strip line in
     if new_ssid \<noteq> [] then set_config (\<lambda>c. c\<lparr>ssid := new_ssid\<rparr>) else return ())))"

text \<open>\<open># Interface\<close>\<close>

definition edit_interface :: "world \<Rightarrow> unit prog" where
  "edit_interface w =
     and_then get_config (\<lambda>cfg.
     before (say ([LF] @ ''Current Interface: '' @ interface cfg))
    (and_then (get_available_interfaces w) (\<lambda>available_interfaces.
     if available_interfaces \<noteq> [] then
       before (say ''Available interfaces:'')
      (before (emit (map (\<lambda>(i, iface). Print (''  '' @ py_str_nat i @ ''. '' @ iface))
                       (zip [1 ..< Suc (length available_interfaces)] available_interfaces)))
      (before (say ''  0. Custom input'')
      (and_then (py_input ''Select interface (or Enter to keep current): '') (\<lambda>line.
       let choice = py_strip line in
       if choice = ''0'' then
         and_then (py_input ''Enter interface name: '') (\<lambda>line.
         let new_interface = py_strip line in
         if new_interface \<noteq> [] then set_config (\<lambda>c. c\<lparr>interface := new_interface\<rparr>)
         else return ())
       else if py_isdigit choice \<and> 1 \<le> py_int choice
                 \<and> py_int choice \<le> length available_interfaces then
         set_config (\<lambda>c. c\<lparr>interface := available_interfaces ! (py_int choice - 1)\<rparr>)
       else return ()))))
     else return ())))"

text \<open>\<open># IP Address\<close>\<close>

definition edit_ip :: "unit prog" where
  "edit_ip =
     and_then get_config (\<lambda>cfg.
     before (say ([LF] @ ''Current IP: '' @ ip cfg))
    (and_then (py_input ''New IP address (or Enter to keep): '') (\<lambda>line.
     let new_ip = py_strip line in
     if new_ip \<noteq> [] then set_config (\<lambda>c. c\<lparr>ip := new_ip\<rparr>) else return ())))"

text \<open>\<open># Subnet\<close>\<close>

definition edit_subnet :: "unit prog" where
  "edit_subnet =
     and_then get_config (\<lambda>cfg.
     before (say ([LF] @ ''Current Subnet: /'' @ subnet cfg))
    (and_then (py_input ''New subnet mask / (or Enter to keep): '') (\<lambda>line.
     let new_subnet = py_strip line in
     if new_subnet \<noteq> [] then set_config (\<lambda>c. c\<lparr>subnet := new_subnet\<rparr>) else return ())))"

text \<open>\<open># Gateway\<close>\<close>

definition edit_gateway :: "unit prog" where
  "edit_gateway =
     and_then get_config (\<lambda>cfg.
     before (say ([LF] @ ''Current Gateway: '' @ gateway cfg))
    (and_then (py_input ''New gateway (or Enter to keep): '') (\<lambda>line.
     let new_gateway = py_strip line in
     if new_gateway \<noteq> [] then set_config (\<lambda>c. c\<lparr>gateway := new_gateway\<rparr>) else return ())))"

text \<open>\<open># DNS\<close>\<close>

definition edit_dns :: "unit prog" where
  "edit_dns =
     and_then get_config (\<lambda>cfg.
     before (say ([LF] @ ''Current DNS: '' @ dns cfg))
    (and_then (py_input ''New DNS server (or Enter to keep): '') (\<lambda>line.
     let new_dns = py_strip line in
     if new_dns \<noteq> [] then set_config (\<lambda>c. c\<lparr>dns := new_dns\<rparr>) else return ())))"

text \<open>\<open># Password\<close>\<close>

definition edit_password :: "unit prog" where
  "edit_password =
     and_then get_config (\<lambda>cfg.
     before (say ([LF] @ ''Current Password: ''
                    @ (if password cfg \<noteq> [] then password cfg else ''(none)'')))
    (and_then (py_input ''New password (or Enter to keep): '') (\<lambda>line.
     let new_password = py_strip line in
     if new_password \<noteq> [] then set_config (\<lambda>c. c\<lparr>password := new_password\<rparr>)
     else return ())))"

definition edit_config :: "world \<Rightarrow> unit prog" where
  "edit_config w =
     before (say ([LF] @ ''Configuration Editor''))
    (before (say ''Press Enter to keep current value, or type new value'')
    (before edit_ssid
    (before (edit_interface w)
    (before edit_ip
    (before edit_subnet
    (before edit_gateway
    (before edit_dns
       edit_password)))))))"

section \<open>Scanning\<close>

definition scan_networks :: "world \<Rightarrow> unit prog" where
  "scan_networks w =
     before (say ([LF] @ ''Scanning for available networks...''))
    (and_then (run_command w [''nmcli'', ''device'', ''wifi'', ''rescan''] True) (\<lambda>_.
     and_then (get_available_networks w) (\<lambda>networks.
     if networks \<noteq> [] then
       before (say ([LF] @ ''Found '' @ py_str_nat (length networks) @ '' networks:''))
         (emit (map (\<lambda>(i, network). Print (''  '' @ py_str_nat i @ ''. '' @ network))
                  (zip [1 ..< Suc (length networks)] networks)))
     else say ''No networks found'')))"

definition scan_interfaces :: "world \<Rightarrow> unit prog" where
  "scan_interfaces w =
     before (say ([LF] @ ''Available network interfaces:''))
    (and_then (run_command w [''nmcli'', ''device''] True) (\<lambda>result.
     if returncode result = 0 then say (stdout result)
     else say ''Failed to get interface list''))"

section \<open>configure_purpose\<close>

definition lift :: "'a outcome \<Rightarrow> 'a prog" where
  "lift res st = (res, st)"

abbreviation double_quote :: char where "double_quote \<equiv> CHR 0x22"

text \<open>
  The first loop: at the first line holding \<open>player_role\<close> take
  \<open>line.lstrip().split('"')[1]\<close> and leave; the index raises \<open>IndexError\<close> when that line
  has no double quote.
\<close>

fun read_current_purpose :: "string list \<Rightarrow> string outcome" where
  "read_current_purpose [] = Return []"
| "read_current_purpose (line # rest) =
     (if sublist ''player_role'' line then
        (case py_split_on double_quote (py_lstrip line) of
           _ # current_purpose # _ \<Rightarrow> Return current_purpose
         | _ \<Rightarrow> Raise IndexError)
      else read_current_purpose rest)"

text \<open>One pass of the rewriting loop: the line to write, and what is printed for it.\<close>

definition patch_role_line :: "string \<Rightarrow> string \<Rightarrow> string \<times> event list" where
  "patch_role_line new_purpose line =
     (if sublist ''player_role'' line then
        (''      player_role: '' @ [double_quote] @ new_purpose @ [double_quote]
           @ '' # striker | goal_keeper'' @ [LF],
         [Print (''New purpose set to: '' @ new_purpose)])
      else (line, []))"

text \<open>
  The loop prints while it writes; the file holds the new text once it is closed, so the
  trace shows the printed lines before the \<open>Write\<close>.
\<close>

definition configure_purpose :: "unit prog" where
  "configure_purpose =
     and_then read_config_lines (\<lambda>lines.
     and_then (lift (read_current_purpose lines)) (\<lambda>current_purpose.
     before (say (''Current purpose: '' @ current_purpose))
    (and_then (py_input ''Enter new purpose (striker or goal_keeper) or Enter to keep: '')
       (\<lambda>line.
     let new_purpose = py_lower (py_strip line) in
     if new_purpose \<notin> set [''striker'', ''goal_keeper''] then
       say ''Invalid purpose. Please enter either striker or goal_keeper.''
     else if new_purpose \<noteq> [] then
       and_then read_config_lines (\<lambda>lines.
       let patched = map (patch_role_line new_purpose) lines in
       before (emit (concat (map snd patched)))
         (write_config (concat (map fst patched))))
     else say ''No new purpose provided''))))"

section \<open>apply_configuration\<close>

text \<open>
  \<open>team_id, player_id = config.ip.split(".")[2:]\<close>: the unpacking raises \<open>ValueError\<close>
  unless the slice has exactly two elements.
\<close>

definition derive_ids :: "string \<Rightarrow> (string \<times> string) outcome" where
  "derive_ids ip_text =
     (case drop 2 (py_split_on CHR ''.'' ip_text) of
        [team_id, player_id] \<Rightarrow> Return (team_id, player_id)
      | _ \<Rightarrow> Raise ValueError)"

definition patch_ids_line :: "string \<Rightarrow> string \<Rightarrow> string \<Rightarrow> string \<times> event list" where
  "patch_ids_line team_id player_id line =
     (if sublist ''team_id'' line then
        (''      team_id: '' @ team_id @ '' # must be consistant with GameControl'' @ [LF],
         [Print (''New team id set: '' @ team_id)])
      else if sublist ''player_id'' line then
        (''      player_id: '' @ player_id @ '' # 1 | 2 | 3 | 4 | 5'' @ [LF],
         [Print (''New player id set: '' @ player_id)])
      else (line, []))"

text \<open>
  The function has two parts. The first, \<open># Write the team and player id to the brain
  config\<close>, reads the file and rewrites it; the loop prints while it writes, and the file
  holds the new text once it is closed, so the trace shows the printed lines before the
  \<open>Write\<close>.
\<close>

definition write_team_and_player_id :: "string \<Rightarrow> string \<Rightarrow> unit prog" where
  "write_team_and_player_id team_id player_id =
     and_then read_config_lines (\<lambda>lines.
     let patched = map (patch_ids_line team_id player_id) lines in
     before (emit (concat (map snd patched)))
       (write_config (concat (map fst patched))))"

text \<open>
  The second part runs from \<open>print(f"\nApplying configuration for {config.ssid}...")\<close>
  to the end: the two gates, then disconnect, create, activate and verify, each leaving
  the function when it fails. The listing \<open>nmcli device\<close> of the second gate writes to
  the terminal itself; the trace holds the command only.
\<close>

definition configure_network :: "world \<Rightarrow> WifiConfig \<Rightarrow> unit prog" where
  "configure_network w cfg =
     before (say ([LF] @ ''Applying configuration for '' @ ssid cfg @ ''...''))
    (and_then (subprocess_run w [''id'', ''-u'']) (\<lambda>id_result.
     if py_strip (stdout id_result) \<noteq> ''0'' then
       before (say ''Error: This script must be run as root (use sudo)'')
         (say ''Please run: sudo python3 override_wifi_interactive.py'')
     else
     and_then (check_interface_exists w (interface cfg)) (\<lambda>exists.
     if \<not> exists then
       before (say (''Error: Interface '' @ interface cfg @ '' does not exist''))
      (before (say ''Available interfaces:'')
      (and_then (subprocess_run w [''nmcli'', ''device'']) (\<lambda>_. return ())))
     else
     before (disconnect_current w cfg)
    (and_then (create_connection w cfg) (\<lambda>created.
     if \<not> created then say ''Failed to create connection''
     else
     and_then (activate_connection w cfg) (\<lambda>activated.
     if \<not> activated then say ''Failed to activate connection''
     else
     and_then (verify_connection w cfg) (\<lambda>verified.
     if \<not> verified then say ''Configuration verification failed''
     else
       before (say ([LF] @ ''Configuration completed successfully!''))
      (before (say (''Interface '' @ interface cfg @ '' is now configured with IP ''
                      @ ip cfg @ ''/'' @ subnet cfg))
         (say ''The connection is persistent and will be restored on reboot.'')))))))))"

definition apply_configuration :: "world \<Rightarrow> WifiConfig \<Rightarrow> unit prog" where
  "apply_configuration w cfg =
     before (say (''Applying team and player id configurations...'' @ [LF]))
    (and_then (lift (derive_ids (ip cfg))) (\<lambda>(team_id, player_id).
     before (write_team_and_player_id team_id player_id)
       (configure_network w cfg)))"

section \<open>test_connection\<close>

definition test_connection :: "world \<Rightarrow> WifiConfig \<Rightarrow> unit prog" where
  "test_connection w cfg =
     before (say ([LF] @ ''Testing connection to gateway '' @ gateway cfg @ ''...''))
    (and_then (run_command w [''ping'', ''-c'', ''3'', ''-W'', ''2'', gateway cfg] False) (\<lambda>result.
     if returncode result = 0 then
       before (say (check_mark @ '' Connection test successful!''))
         (emit (map (\<lambda>line. Print (''  '' @ py_strip line))
                  (filter (\<lambda>line. sublist ''packets transmitted'' line
                                  \<or> sublist ''rtt min/avg/max'' line)
                     (py_splitlines (stdout result)))))
     else
       before (say (cross_mark @ '' Connection test failed''))
         (say ''Check your configuration and try again'')))"

section \<open>reset_to_dhcp\<close>

text \<open>\<open># Find the WiFi interface that's connected\<close>\<close>

fun find_wifi_interface :: "string list \<Rightarrow> string option" where
  "find_wifi_interface [] = None"
| "find_wifi_interface (line # rest) =
     (if sublist ''wifi'' (py_lower line) \<and> sublist ''connected'' (py_lower line) then
        (let parts = py_split line in
         if length parts \<ge> 1 then Some (parts ! 0)
         else find_wifi_interface rest)
      else find_wifi_interface rest)"

text \<open>\<open>line.split(sep, 1)\<close> for a one-character separator.\<close>

definition py_split_once :: "char \<Rightarrow> string \<Rightarrow> string list" where
  "py_split_once sep s =
     (if sep \<in> set s then [takeWhile (\<lambda>c. c \<noteq> sep) s, tl (dropWhile (\<lambda>c. c \<noteq> sep) s)]
      else [s])"

text \<open>\<open># Extract the connection name from device info\<close>\<close>

fun find_active_connection :: "string list \<Rightarrow> string option" where
  "find_active_connection [] = None"
| "find_active_connection (line # rest) =
     (if sublist ''GENERAL.CONNECTION:'' line then
        (let parts = py_split_once CHR '':'' line in
         if length parts \<ge> 2 then Some (py_strip (parts ! 1))
         else find_active_connection rest)
      else find_active_connection rest)"

text \<open>\<open>not x\<close> for a value that is \<open>None\<close> or a string.\<close>

definition py_not :: "string option \<Rightarrow> bool" where
  "py_not v = (case v of None \<Rightarrow> True | Some s \<Rightarrow> s = [])"

definition reset_to_dhcp :: "world \<Rightarrow> unit prog" where
  "reset_to_dhcp w =
     before (say ([LF] @ ''Resetting to DHCP...''))
    (and_then (run_command w [''nmcli'', ''device'', ''status''] True) (\<lambda>result.
     if returncode result \<noteq> 0 then say ''Failed to get device status''
     else
     let wifi_interface = find_wifi_interface (py_splitlines (stdout result)) in
     if py_not wifi_interface then say ''No active WiFi connection found''
     else
     and_then (run_command w [''nmcli'', ''device'', ''show'', py_format wifi_interface] True)
       (\<lambda>result.
     if returncode result \<noteq> 0 then
       say (''Failed to get device info for '' @ py_format wifi_interface)
     else
     let active_connection = find_active_connection (py_splitlines (stdout result)) in
     if py_not active_connection then
       say (''Could not find connection name for interface '' @ py_format wifi_interface)
     else
     before (say (''Resetting connection '' @ apostrophe @ py_format active_connection
                    @ apostrophe @ '' to DHCP...''))
    (and_then (run_command w
        [''nmcli'', ''connection'', ''modify'', py_format active_connection,
         ''ipv4.method'', ''auto''] True) (\<lambda>result.
     if returncode result \<noteq> 0 then
       say (''Failed to modify connection: '' @ stderr result)
     else
     and_then (run_command w [''nmcli'', ''connection'', ''down'', py_format active_connection]
                 True) (\<lambda>result.
     if returncode result \<noteq> 0 then
       say (''Failed to bring down connection: '' @ stderr result)
     else
     and_then (run_command w [''nmcli'', ''connection'', ''up'', py_format active_connection]
                 True) (\<lambda>result.
     if returncode result \<noteq> 0 then
       say (''Failed to bring up connection: '' @ stderr result)
     else say ''Connection reset to DHCP successfully'')))))))"

section \<open>main_menu\<close>

definition menu_text :: "event list" where
  "menu_text =
     [Print ([LF] @ rule50),
      Print ''BOOSTER WIFI IP OVERRIDE AND BRAIN CONFIGURATION TOOL'',
      Print rule50,
      Print ''1. Show current configuration'',
      Print ''2. Edit configuration'',
      Print ''3. Scan for available networks'',
      Print ''4. Scan for available interfaces'',
      Print ''5. Apply configuration'',
      Print ''6. Verify current connection'',
      Print ''7. Test connection (ping gateway)'',
      Print ''8. Reset to DHCP'',
      Print ''9. Configure purpose'',
      Print ''10. Configure player id'',
      Print ''0. Exit'',
      Print rule50]"

text \<open>
  The body of the \<open>while True\<close> loop. \<open>sys.exit(0)\<close> raises \<open>SystemExit\<close>; nothing in the
  program catches it, nor any other exception.
\<close>

definition menu_iteration :: "world \<Rightarrow> unit prog" where
  "menu_iteration w =
     before (emit menu_text)
    (and_then (py_input ''Select option: '') (\<lambda>line.
     let choice = py_strip line in
     if choice = ''1'' then and_then get_config display_config
     else if choice = ''2'' then edit_config w
     else if choice = ''3'' then scan_networks w
     else if choice = ''4'' then scan_interfaces w
     else if choice = ''5'' then and_then get_config (apply_configuration w)
     else if choice = ''6'' then and_then get_config (\<lambda>cfg.
                                    and_then (verify_connection w cfg) (\<lambda>_. return ()))
     else if choice = ''7'' then and_then get_config (test_connection w)
     else if choice = ''8'' then reset_to_dhcp w
     else if choice = ''9'' then configure_purpose
     else if choice = ''0'' then before (say ''Goodbye!'') (raise (SystemExit 0))
     else say ''Invalid option. Please try again.''))"

text \<open>
  The loop itself ends only by an exception: \<open>SystemExit\<close> from option 0, \<open>EOFError\<close>
  when standard input is exhausted, or one raised inside a handler. \<open>None\<close> stands for
  a run that never ends.
\<close>

partial_function (option) main_menu :: "world \<Rightarrow> state \<Rightarrow> (exn \<times> state) option" where
  "main_menu w st =
     (case menu_iteration w st of
        (Return _, st') \<Rightarrow> main_menu w st'
      | (Raise e, st') \<Rightarrow> Some (e, st'))"

section \<open>The program entry\<close>

text \<open>The \<open>__main__\<close> block: the default configuration, a warning when not root, the menu.\<close>

definition default_config :: WifiConfig where
  "default_config =
     \<lparr>ssid = ''robocup-x'',
      interface = ''wlp146s0'',
      ip = ''192.168.57.45'',
      subnet = ''27'',
      gateway = ''192.168.57.1'',
      password = ''9181918191'',
      dns = ''8.8.8.8''\<rparr>"

definition initial_state :: "string \<Rightarrow> string list \<Rightarrow> state" where
  "initial_state yaml inputs =
     \<lparr>events = [], config_yaml = yaml, stdin = inputs, config = default_config\<rparr>"

definition root_warning :: "world \<Rightarrow> unit prog" where
  "root_warning w =
     and_then (subprocess_run w [''id'', ''-u'']) (\<lambda>id_result.
     let is_root = (py_strip (stdout id_result) = ''0'') in
     if \<not> is_root then
       emit [Print ''Warning: Not running as root. Some operations may fail.'',
             Print ''For full functionality, run: sudo python3 override_wifi_interactive.py'',
             Print []]
     else return ())"

definition main_program :: "world \<Rightarrow> string \<Rightarrow> string list \<Rightarrow> (exn \<times> state) option" where
  "main_program w yaml inputs =
     (case root_warning w (initial_state yaml inputs) of
        (Return _, st) \<Rightarrow> main_menu w st
      | (Raise e, st) \<Rightarrow> Some (e, st))"

section \<open>Vocabulary of the properties\<close>

text \<open>The events a run has added to the trace.\<close>

definition new_events :: "state \<Rightarrow> state \<Rightarrow> event list" where
  "new_events st st' = drop (length (events st)) (events st')"

text \<open>
  The commands of the tool that change the network: \<open>nmcli device disconnect\<close> and
  \<open>nmcli connection delete\<close>, \<open>add\<close>, \<open>modify\<close>, \<open>up\<close>, \<open>down\<close>.
\<close>

definition mutating_call :: "string list \<Rightarrow> bool" where
  "mutating_call cmd =
     (prefix [''nmcli'', ''device'', ''disconnect''] cmd
      \<or> list_ex (\<lambda>verb. prefix [''nmcli'', ''connection'', verb] cmd)
           [''delete'', ''add'', ''modify'', ''up'', ''down''])"

text \<open>What the rewriting loop of \<open>apply_configuration\<close> writes and prints for a file content.\<close>

definition patched_ids_text :: "string \<Rightarrow> string \<Rightarrow> string \<Rightarrow> string" where
  "patched_ids_text team_id player_id content =
     concat (map fst (map (patch_ids_line team_id player_id) (py_readlines content)))"

definition patch_ids_prints :: "string \<Rightarrow> string \<Rightarrow> string \<Rightarrow> event list" where
  "patch_ids_prints team_id player_id content =
     concat (map snd (map (patch_ids_line team_id player_id) (py_readlines content)))"

text \<open>The whole trace of \<open>apply_configuration\<close> when it stops at the privilege check.\<close>

definition unprivileged_trace :: "WifiConfig \<Rightarrow> string \<Rightarrow> string \<Rightarrow> string \<Rightarrow> event list" where
  "unprivileged_trace cfg team_id player_id content =
     [Print (''Applying team and player id configurations...'' @ [LF])]
     @ patch_ids_prints team_id player_id content
     @ [Write (patched_ids_text team_id player_id content),
        Print ([LF] @ ''Applying configuration for '' @ ssid cfg @ ''...''),
        Exec [''id'', ''-u''],
        Print ''Error: This script must be run as root (use sudo)'',
        Print ''Please run: sudo python3 override_wifi_interactive.py'']"

text \<open>The choices \<open>main_menu\<close> has a branch for, and the state after its \<open>else\<close> branch.\<close>

definition recognised_options :: "string list" where
  "recognised_options = map (\<lambda>digit. [digit]) ''1234567890''"

definition after_invalid_option :: "state \<Rightarrow> string list \<Rightarrow> state" where
  "after_invalid_option st rest =
     st\<lparr>events := events st @ menu_text
            @ [Prompt ''Select option: '', Print ''Invalid option. Please try again.''],
        stdin := rest\<rparr>"

text \<open>
  The words of the specification for \<open>get_available_networks\<close>: the network names are the
  second tokens of the rows that are not blank, are not the header and have two tokens,
  with repetitions dropped in first-seen order. The header row is the row of the column
  titles, which starts with \<open>IN-USE\<close>.
\<close>

fun first_seen :: "'a list \<Rightarrow> 'a list" where
  "first_seen [] = []"
| "first_seen (x # xs) = x # first_seen (filter (\<lambda>y. y \<noteq> x) xs)"

definition blank_row :: "string \<Rightarrow> bool" where
  "blank_row row = (py_strip row = [])"

definition header_row :: "string \<Rightarrow> bool" where
  "header_row row = prefix ''IN-USE'' row"

definition network_row :: "string \<Rightarrow> bool" where
  "network_row row = (\<not> blank_row row \<and> \<not> header_row row \<and> length (py_split row) \<ge> 2)"

definition ssid_of :: "string \<Rightarrow> string" where
  "ssid_of row = py_split row ! 1"

definition list_networks_spec :: "string \<Rightarrow> string list" where
  "list_networks_spec listing =
     first_seen (map ssid_of (filter network_row (py_splitlines listing)))"

text \<open>
  The five checks of \<open>verify_connection\<close> as conditions on the answers of its five
  commands, and the second check as the specification words it: an \<open>inet\<close> line that
  holds the text \<open>ip/subnet\<close> as one of its tokens.
\<close>

definition active_ok :: "WifiConfig \<Rightarrow> CommandResult \<Rightarrow> bool" where
  "active_ok cfg r = sublist (ssid cfg) (stdout r)"

definition ip_ok :: "WifiConfig \<Rightarrow> CommandResult \<Rightarrow> bool" where
  "ip_ok cfg r =
     (returncode r = 0
      \<and> list_ex (\<lambda>line. sublist ''inet '' line \<and> sublist (ip cfg @ ''/'' @ subnet cfg) line)
            (py_splitlines (stdout r)))"

definition gateway_ok :: "WifiConfig \<Rightarrow> CommandResult \<Rightarrow> bool" where
  "gateway_ok cfg r = sublist (gateway cfg) (stdout r)"

definition dns_ok :: "WifiConfig \<Rightarrow> CommandResult \<Rightarrow> bool" where
  "dns_ok cfg r = (returncode r = 0 \<and> sublist (dns cfg) (stdout r))"

definition ssid_ok :: "WifiConfig \<Rightarrow> CommandResult \<Rightarrow> bool" where
  "ssid_ok cfg r =
     (returncode r = 0
      \<and> find_connected_ssid (interface cfg) (py_splitlines (stdout r)) = Some (ssid cfg))"

definition ip_token_ok :: "WifiConfig \<Rightarrow> CommandResult \<Rightarrow> bool" where
  "ip_token_ok cfg r =
     list_ex (\<lambda>line. sublist ''inet '' line \<and> (ip cfg @ ''/'' @ subnet cfg) \<in> set (py_split line))
       (py_splitlines (stdout r))"

definition verify_commands :: "WifiConfig \<Rightarrow> string list list" where
  "verify_commands cfg =
     [[''nmcli'', ''connection'', ''show'', ''--active''],
      [''ip'', ''addr'', ''show'', interface cfg],
      [''ip'', ''route'', ''show'', ''default''],
      [''cat'', ''/etc/resolv.conf''],
      [''nmcli'', ''device'', ''wifi'', ''list'', ''--rescan'', ''no'']]"

text \<open>The answer to the n-th command of the verification, the earlier ones having run.\<close>

definition verify_output :: "world \<Rightarrow> WifiConfig \<Rightarrow> state \<Rightarrow> nat \<Rightarrow> CommandResult" where
  "verify_output w cfg st n =
     w (executed (events st) @ take n (verify_commands cfg)) (verify_commands cfg ! n)"

text \<open>
  The shape of what \<open>readlines\<close> returns: every line is a full line, its only line break
  the \<open>\n\<close> that ends it, except that the last may be an open line with no line break.
\<close>

definition full_line :: "string \<Rightarrow> bool" where
  "full_line l = (l \<noteq> [] \<and> last l = LF \<and> LF \<notin> set (butlast l) \<and> CR \<notin> set l)"

definition open_line :: "string \<Rightarrow> bool" where
  "open_line l = (l \<noteq> [] \<and> LF \<notin> set l \<and> CR \<notin> set l)"

fun lines_ok :: "string list \<Rightarrow> bool" where
  "lines_ok [] = True"
| "lines_ok [l] = (full_line l \<or> open_line l)"
| "lines_ok (l # ls) = (full_line l \<and> lines_ok ls)"

text \<open>The lines the rewriting loops put in place of a matching line, and what the loop of
  \<open>configure_purpose\<close> writes and prints for a file content.\<close>

definition team_id_line :: "string \<Rightarrow> string" where
  "team_id_line team_id =
     ''      team_id: '' @ team_id @ '' # must be consistant with GameControl'' @ [LF]"

definition player_id_line :: "string \<Rightarrow> string" where
  "player_id_line player_id = ''      player_id: '' @ player_id @ '' # 1 | 2 | 3 | 4 | 5'' @ [LF]"

definition player_role_line :: "string \<Rightarrow> string" where
  "player_role_line new_purpose =
     ''      player_role: '' @ [double_quote] @ new_purpose @ [double_quote]
       @ '' # striker | goal_keeper'' @ [LF]"

definition patched_role_text :: "string \<Rightarrow> string \<Rightarrow> string" where
  "patched_role_text new_purpose content =
     concat (map fst (map (patch_role_line new_purpose) (py_readlines content)))"

definition patch_role_prints :: "string \<Rightarrow> string \<Rightarrow> event list" where
  "patch_role_prints new_purpose content =
     concat (map snd (map (patch_role_line new_purpose) (py_readlines content)))"

abbreviation purpose_prompt :: string where
  "purpose_prompt \<equiv> ''Enter new purpose (striker or goal_keeper) or Enter to keep: ''"

text \<open>
  A text without line break; and the frame of a rewrite for a list of keys: the stored
  lines of the old and of the new text correspond one to one, in order, and every old line
  that contains none of the keys is the same in the new text.
\<close>

definition no_line_break :: "string \<Rightarrow> bool" where
  "no_line_break s = (LF \<notin> set s \<and> CR \<notin> set s)"

definition frame_kept :: "string list \<Rightarrow> string \<Rightarrow> string \<Rightarrow> bool" where
  "frame_kept keys old_text new_text =
     list_all2 (\<lambda>old_line new_line. list_ex (\<lambda>key. sublist key old_line) keys \<or> new_line = old_line)
       (keep_ends old_text) (keep_ends new_text)"

text \<open>A run that leaves the configuration file as it found it.\<close>

definition leaves_file :: "'a prog \<Rightarrow> bool" where
  "leaves_file m = (\<forall>st. config_yaml (snd (m st)) = config_yaml st)"

section \<open>Examples the properties are evaluated on\<close>

definition example_yaml :: string where
  "example_yaml =
     ''name: x'' @ [LF] @ ''team_id: 1'' @ [LF] @ ''player_id: 2'' @ [LF]
     @ ''player_role: '' @ [double_quote] @ ''striker'' @ [double_quote] @ [LF]"

text \<open>A file whose first line holds both keys, \<open>player_id\<close> before \<open>team_id\<close>.\<close>

definition example_both_yaml :: string where
  "example_both_yaml = ''player_id_of_team_id: 3'' @ [LF] @ ''my_player_id: 9'' @ [LF]"

text \<open>A host whose scan lists the header and the network robocup-x twice.\<close>

definition scan_world :: world where
  "scan_world history cmd =
     \<lparr>returncode = 0,
      stdout = ''IN-USE SSID MODE'' @ [LF] @ ''* robocup-x Infra'' @ [LF]
               @ ''* robocup-x Infra'' @ [LF],
      stderr = []\<rparr>"

text \<open>
  A host whose only WiFi device is disconnected: the rows \<open>nmcli device status\<close> and
  \<open>nmcli device show wlan0\<close> print for it, and a failure for every other command.
\<close>

definition disconnected_world :: world where
  "disconnected_world history cmd =
     (if cmd = [''nmcli'', ''device'', ''status''] then
        \<lparr>returncode = 0,
         stdout = ''DEVICE TYPE STATE CONNECTION'' @ [LF] @ ''wlan0 wifi disconnected --'' @ [LF],
         stderr = []\<rparr>
      else if cmd = [''nmcli'', ''device'', ''show'', ''wlan0''] then
        \<lparr>returncode = 0,
         stdout = ''GENERAL.DEVICE: wlan0'' @ [LF] @ ''GENERAL.CONNECTION: --'' @ [LF],
         stderr = []\<rparr>
      else \<lparr>returncode = 10, stdout = [], stderr = ''Error: unknown connection''\<rparr>)"

text \<open>A host connected to robocup-x with the address 192.168.57.45/27.\<close>

definition connected_world :: world where
  "connected_world history cmd =
     (if cmd = [''nmcli'', ''connection'', ''show'', ''--active''] then
        \<lparr>returncode = 0, stdout = ''robocup-x wifi wlp146s0'', stderr = []\<rparr>
      else if cmd = [''ip'', ''addr'', ''show'', ''wlp146s0''] then
        \<lparr>returncode = 0, stdout = ''  inet 192.168.57.45/27 brd 192.168.57.63'', stderr = []\<rparr>
      else if cmd = [''ip'', ''route'', ''show'', ''default''] then
        \<lparr>returncode = 0, stdout = ''default via 192.168.57.1 dev wlp146s0'', stderr = []\<rparr>
      else if cmd = [''cat'', ''/etc/resolv.conf''] then
        \<lparr>returncode = 0, stdout = ''nameserver 8.8.8.8'', stderr = []\<rparr>
      else \<lparr>returncode = 0, stdout = ''* robocup-x Infra wlp146s0 on'', stderr = []\<rparr>)"

text \<open>A file with Windows line ends, and a file that holds a player id only.\<close>

definition crlf_yaml :: string where
  "crlf_yaml = ''name: x'' @ [CR, LF] @ ''team_id: 1'' @ [CR, LF]"

definition player_only_yaml :: string where
  "player_only_yaml = ''player_id: 4'' @ [LF]"

text \<open>A host whose scan lists a network that is named SSID, and the network home.\<close>

definition ssid_named_world :: world where
  "ssid_named_world history cmd =
     \<lparr>returncode = 0,
      stdout = ''IN-USE SSID MODE'' @ [LF] @ ''* SSID Infra'' @ [LF] @ ''* home Infra'' @ [LF],
      stderr = []\<rparr>"

text \<open>A host where the tool runs as user 1000 and every command fails.\<close>

definition unprivileged_world :: world where
  "unprivileged_world history cmd =
     (if cmd = [''id'', ''-u''] then \<lparr>returncode = 0, stdout = ''1000'' @ [LF], stderr = []\<rparr>
      else \<lparr>returncode = 1, stdout = [], stderr = ''not permitted''\<rparr>)"

section \<open>Lemmas on the effects\<close>

lemmas prog_defs = and_then_def before_def return_def raise_def emit_def say_def py_input_def
  subprocess_run_def run_command_def read_config_lines_def write_config_def lift_def
  get_config_def set_config_def

lemma executed_append: "executed (xs @ ys) = executed xs @ executed ys"
  by (induction xs rule: executed.induct) auto

lemma executed_patch_ids_prints:
  "executed (concat (map (snd \<circ> patch_ids_line t p) ls)) = []"
  by (induction ls) (auto simp: patch_ids_line_def executed_append)

lemma apply_configuration_unprivileged_run:
  assumes "py_strip (stdout (w (executed (events st)) [''id'', ''-u''])) \<noteq> ''0''"
    and "derive_ids (ip cfg) = Return (team_id, player_id)"
  shows "apply_configuration w cfg st =
           (Return (),
            st\<lparr>events := events st @ unprivileged_trace cfg team_id player_id (config_yaml st),
               config_yaml := patched_ids_text team_id player_id (config_yaml st)\<rparr>)"
  using assms
  by (simp add: apply_configuration_def write_team_and_player_id_def configure_network_def
      prog_defs Let_def executed_append executed_patch_ids_prints unprivileged_trace_def patched_ids_text_def patch_ids_prints_def)

lemma apply_configuration_bad_ip:
  assumes "derive_ids (ip cfg) = Raise e"
  shows "apply_configuration w cfg st =
           (Raise e,
            st\<lparr>events := events st
                 @ [Print (''Applying team and player id configurations...'' @ [LF])]\<rparr>)"
  using assms by (simp add: apply_configuration_def prog_defs)

lemma executed_unprivileged_trace:
  "executed (unprivileged_trace cfg t p content) = [[''id'', ''-u'']]"
  by (simp add: unprivileged_trace_def patch_ids_prints_def executed_append
      executed_patch_ids_prints)

lemma menu_iteration_unrecognised:
  assumes "stdin st = line # rest" and "py_strip line \<notin> set recognised_options"
  shows "menu_iteration w st = (Return (), after_invalid_option st rest)"
  using assms
  by (simp add: menu_iteration_def prog_defs after_invalid_option_def recognised_options_def)

lemma leaves_file_return: "leaves_file (return v)"
  by (simp add: leaves_file_def return_def)

lemma leaves_file_raise: "leaves_file (raise e)"
  by (simp add: leaves_file_def raise_def)

lemma leaves_file_emit: "leaves_file (emit evs)"
  by (simp add: leaves_file_def emit_def)

lemma leaves_file_say: "leaves_file (say msg)"
  by (simp add: say_def leaves_file_emit)

lemma leaves_file_subprocess_run: "leaves_file (subprocess_run w cmd)"
  by (simp add: leaves_file_def subprocess_run_def)

lemma leaves_file_and_then:
  assumes "leaves_file m" and "\<And>v. leaves_file (k v)"
  shows "leaves_file (and_then m k)"
  unfolding leaves_file_def
proof
  fix st
  show "config_yaml (snd (and_then m k st)) = config_yaml st"
  proof (cases "m st")
    case (Pair res st')
    have "config_yaml st' = config_yaml st"
      using assms(1) Pair by (metis leaves_file_def snd_conv)
    then show ?thesis
      using assms(2) Pair by (cases res) (auto simp: and_then_def leaves_file_def)
  qed
qed

lemma leaves_file_before:
  "leaves_file m \<Longrightarrow> leaves_file k \<Longrightarrow> leaves_file (before m k)"
  by (simp add: before_def leaves_file_and_then)

lemma leaves_file_if:
  "leaves_file a \<Longrightarrow> leaves_file b \<Longrightarrow> leaves_file (if c then a else b)"
  by simp

lemma leaves_file_run_command: "leaves_file (run_command w cmd check)"
  unfolding run_command_def
  by (intro leaves_file_and_then leaves_file_if leaves_file_before leaves_file_emit
      leaves_file_return leaves_file_subprocess_run)

lemmas leaves_file_intros = leaves_file_and_then leaves_file_before leaves_file_if
  leaves_file_return leaves_file_raise leaves_file_emit leaves_file_say
  leaves_file_subprocess_run leaves_file_run_command

lemma leaves_file_check_interface_exists: "leaves_file (check_interface_exists w iface)"
  unfolding check_interface_exists_def by (intro leaves_file_intros)

lemma leaves_file_disconnect_current: "leaves_file (disconnect_current w cfg)"
  unfolding disconnect_current_def by (intro leaves_file_intros)

lemma leaves_file_create_connection: "leaves_file (create_connection w cfg)"
  unfolding create_connection_def by (intro leaves_file_intros)

lemma leaves_file_activate_connection: "leaves_file (activate_connection w cfg)"
  unfolding activate_connection_def by (intro leaves_file_intros)

lemma leaves_file_verify_connection: "leaves_file (verify_connection w cfg)"
  unfolding verify_connection_def verify_active_def verify_ip_def verify_gateway_def
    verify_dns_def verify_ssid_def Let_def
  by (intro leaves_file_intros)

lemma leaves_file_configure_network: "leaves_file (configure_network w cfg)"
  unfolding configure_network_def
  by (intro leaves_file_intros leaves_file_check_interface_exists
      leaves_file_disconnect_current leaves_file_create_connection
      leaves_file_activate_connection leaves_file_verify_connection)

lemma apply_configuration_file:
  assumes "derive_ids (ip cfg) = Return (team_id, player_id)"
  shows "config_yaml (snd (apply_configuration w cfg st))
           = patched_ids_text team_id player_id (config_yaml st)"
proof -
  define st1 where "st1 = snd (before (say (''Applying team and player id configurations...'' @ [LF]))
      (write_team_and_player_id team_id player_id) st)"
  have run: "apply_configuration w cfg st = configure_network w cfg st1"
    using assms
    by (simp add: apply_configuration_def st1_def write_team_and_player_id_def
        and_then_def before_def return_def emit_def say_def read_config_lines_def
        write_config_def lift_def Let_def)
  have "config_yaml st1 = patched_ids_text team_id player_id (config_yaml st)"
    by (simp add: st1_def write_team_and_player_id_def patched_ids_text_def
        and_then_def before_def return_def emit_def say_def read_config_lines_def
        write_config_def Let_def)
  then show ?thesis
    using leaves_file_configure_network [of w cfg] run by (simp add: leaves_file_def)
qed

lemma fst_patch_ids_line:
  "fst (patch_ids_line t p line) =
     (if sublist ''team_id'' line then team_id_line t
      else if sublist ''player_id'' line then player_id_line p else line)"
  by (simp add: patch_ids_line_def team_id_line_def player_id_line_def)

lemma sublist_mid: "sublist xs (a @ b @ xs @ c)"
  by (metis append.assoc sublist_appendI)

lemma sublist_mid3: "sublist xs (a @ xs @ b @ c)"
  by (metis append.assoc sublist_appendI)

lemma configure_purpose_read_fails:
  assumes "read_current_purpose (py_readlines (config_yaml st)) = Raise e"
  shows "configure_purpose st = (Raise e, st)"
  using assms by (simp add: configure_purpose_def prog_defs)

lemma configure_purpose_no_input:
  assumes "read_current_purpose (py_readlines (config_yaml st)) = Return current_purpose"
    and "stdin st = []"
  shows "configure_purpose st =
           (Raise EOFError,
            st\<lparr>events := events st @ [Print (''Current purpose: '' @ current_purpose),
                                        Prompt purpose_prompt]\<rparr>)"
  using assms by (simp add: configure_purpose_def prog_defs)

lemma configure_purpose_rejects:
  assumes "read_current_purpose (py_readlines (config_yaml st)) = Return current_purpose"
    and "stdin st = line # rest"
    and "py_lower (py_strip line) \<notin> set [''striker'', ''goal_keeper'']"
  shows "configure_purpose st =
           (Return (),
            st\<lparr>events := events st @ [Print (''Current purpose: '' @ current_purpose),
                                        Prompt purpose_prompt,
                                        Print ''Invalid purpose. Please enter either striker or goal_keeper.''],
               stdin := rest\<rparr>)"
  using assms by (simp add: configure_purpose_def prog_defs Let_def)

lemma configure_purpose_accepts:
  assumes "read_current_purpose (py_readlines (config_yaml st)) = Return current_purpose"
    and "stdin st = line # rest"
    and "py_lower (py_strip line) \<in> set [''striker'', ''goal_keeper'']"
  shows "configure_purpose st =
           (Return (),
            st\<lparr>events := events st @ [Print (''Current purpose: '' @ current_purpose),
                                        Prompt purpose_prompt]
                   @ patch_role_prints (py_lower (py_strip line)) (config_yaml st)
                   @ [Write (patched_role_text (py_lower (py_strip line)) (config_yaml st))],
               stdin := rest,
               config_yaml := patched_role_text (py_lower (py_strip line)) (config_yaml st)\<rparr>)"
  using assms
  by (auto simp add: configure_purpose_def prog_defs Let_def patch_role_prints_def
      patched_role_text_def)

lemma patch_role_prints_shape:
  "ev \<in> set (concat (map (snd \<circ> patch_role_line v) ls)) \<Longrightarrow> ev = Print (''New purpose set to: '' @ v)"
  by (induction ls) (auto simp: patch_role_line_def split: if_splits)

lemma no_new_purpose_unreachable:
  "Print ''No new purpose provided'' \<notin> set (new_events st (snd (configure_purpose st)))"
proof (cases "read_current_purpose (py_readlines (config_yaml st))")
  case (Raise e)
  then show ?thesis by (simp add: configure_purpose_read_fails new_events_def)
next
  case (Return current_purpose)
  show ?thesis
  proof (cases "stdin st")
    case Nil
    then show ?thesis
      using Return by (simp add: configure_purpose_no_input new_events_def)
  next
    case (Cons line rest)
    show ?thesis
    proof (cases "py_lower (py_strip line) \<in> set [''striker'', ''goal_keeper'']")
      case False
      then show ?thesis
        using Return Cons by (simp add: configure_purpose_rejects new_events_def)
    next
      case True
      have "Print ''No new purpose provided''
              \<notin> set (patch_role_prints (py_lower (py_strip line)) (config_yaml st))"
        using patch_role_prints_shape
          [of "Print ''No new purpose provided''" "py_lower (py_strip line)"]
        by (auto simp: patch_role_prints_def)
      then show ?thesis
        using configure_purpose_accepts [OF Return Cons True]
        by (simp add: new_events_def)
    qed
  qed
qed

lemma set_first_seen: "set (first_seen xs) = set xs"
  by (induction xs rule: first_seen.induct) auto

lemma distinct_first_seen: "distinct (first_seen xs)"
  by (induction xs rule: first_seen.induct) (auto simp: set_first_seen)

lemma filter_first_seen: "filter P (first_seen xs) = first_seen (filter P xs)"
proof (induction xs rule: first_seen.induct)
  case 1
  then show ?case by simp
next
  case (2 x xs)
  have ih: "filter P (first_seen (filter (\<lambda>y. y \<noteq> x) xs))
              = first_seen (filter P (filter (\<lambda>y. y \<noteq> x) xs))"
    by (rule 2)
  show ?case
  proof (cases "P x")
    case True
    have "filter P (filter (\<lambda>y. y \<noteq> x) xs) = filter (\<lambda>y. y \<noteq> x) (filter P xs)"
      by (induction xs) auto
    then show ?thesis using True ih by simp
  next
    case False
    have "filter P (filter (\<lambda>y. y \<noteq> x) xs) = filter P xs"
      using False by (induction xs) auto
    then show ?thesis using False ih by simp
  qed
qed

lemma networks_step_cases:
  "networks_step acc row =
     (if network_row row \<and> ssid_of row \<noteq> ''SSID'' \<and> ssid_of row \<notin> set acc
      then acc @ [ssid_of row] else acc)"
  by (auto simp: networks_step_def network_row_def blank_row_def header_row_def ssid_of_def
      Let_def)

lemma filter_unseen:
  "filter (\<lambda>y. y \<noteq> s) (filter (\<lambda>x. x \<notin> set acc) zs) = filter (\<lambda>x. x \<notin> set (acc @ [s])) zs"
  by (induction zs) auto

lemma networks_loop:
  "foldl networks_step acc rows =
     acc @ first_seen (filter (\<lambda>s. s \<notin> set acc)
             (filter (\<lambda>name. name \<noteq> ''SSID'') (map ssid_of (filter network_row rows))))"
proof (induction rows arbitrary: acc)
  case Nil
  then show ?case by simp
next
  case (Cons row rows)
  show ?case
  proof (cases "network_row row \<and> ssid_of row \<noteq> ''SSID'' \<and> ssid_of row \<notin> set acc")
    case True
    then have "foldl networks_step acc (row # rows) = foldl networks_step (acc @ [ssid_of row]) rows"
      by (simp add: networks_step_cases)
    also have "\<dots> = (acc @ [ssid_of row])
        @ first_seen (filter (\<lambda>s. s \<notin> set (acc @ [ssid_of row]))
            (filter (\<lambda>name. name \<noteq> ''SSID'') (map ssid_of (filter network_row rows))))"
      by (rule Cons.IH)
    finally show ?thesis
      using True by (simp add: filter_unseen [symmetric] del: set_append)
  next
    case False
    then have "foldl networks_step acc (row # rows) = foldl networks_step acc rows"
      by (auto simp: networks_step_cases)
    then show ?thesis using False Cons.IH [of acc] by auto
  qed
qed

lemma find_wifi_interface_none:
  assumes "\<forall>row \<in> set rows. \<not> (sublist ''wifi'' (py_lower row) \<and> sublist ''connected'' (py_lower row))"
  shows "find_wifi_interface rows = None"
  using assms by (induction rows) auto

lemma executed_map_Print: "executed (map (\<lambda>l. Print (f l)) xs) = []"
  by (induction xs) auto

lemma verify_active_run:
  "\<exists>st'. verify_active w cfg g st
           = (Return (g \<and> active_ok cfg (w (executed (events st)) [''nmcli'', ''connection'', ''show'', ''--active''])), st')
         \<and> executed (events st') = executed (events st) @ [[''nmcli'', ''connection'', ''show'', ''--active'']]"
  by (simp add: verify_active_def prog_defs executed_append active_ok_def)

lemma verify_ip_run:
  "\<exists>st'. verify_ip w cfg g st
           = (Return (g \<and> ip_ok cfg (w (executed (events st)) [''ip'', ''addr'', ''show'', interface cfg])), st')
         \<and> executed (events st') = executed (events st) @ [[''ip'', ''addr'', ''show'', interface cfg]]"
  by (simp add: verify_ip_def prog_defs executed_append ip_ok_def Let_def executed_map_Print)

lemma verify_gateway_run:
  "\<exists>st'. verify_gateway w cfg g st
           = (Return (g \<and> gateway_ok cfg (w (executed (events st)) [''ip'', ''route'', ''show'', ''default''])), st')
         \<and> executed (events st') = executed (events st) @ [[''ip'', ''route'', ''show'', ''default'']]"
  by (simp add: verify_gateway_def prog_defs executed_append gateway_ok_def executed_map_Print)

lemma verify_dns_run:
  "\<exists>st'. verify_dns w cfg g st
           = (Return (g \<and> dns_ok cfg (w (executed (events st)) [''cat'', ''/etc/resolv.conf''])), st')
         \<and> executed (events st') = executed (events st) @ [[''cat'', ''/etc/resolv.conf'']]"
  by (simp add: verify_dns_def prog_defs executed_append dns_ok_def executed_map_Print)

lemma verify_ssid_run:
  "\<exists>st'. verify_ssid w cfg g st
           = (Return (g \<and> ssid_ok cfg (w (executed (events st)) [''nmcli'', ''device'', ''wifi'', ''list'', ''--rescan'', ''no''])), st')
         \<and> executed (events st') = executed (events st) @ [[''nmcli'', ''device'', ''wifi'', ''list'', ''--rescan'', ''no'']]"
  by (simp add: verify_ssid_def prog_defs executed_append ssid_ok_def Let_def)


section \<open>Lemmas on reading lines\<close>

lemma universal_newlines_no_CR: "CR \<notin> set (universal_newlines s)"
  by (induction s rule: universal_newlines.induct) (auto split: list.splits)

lemma universal_newlines_id: "CR \<notin> set s \<Longrightarrow> universal_newlines s = s"
  by (induction s rule: universal_newlines.induct) (auto split: list.splits)

lemma concat_keep_ends: "concat (keep_ends s) = s"
  by (induction s) (auto split: list.splits)

lemma keep_ends_Nil_iff: "keep_ends s = [] \<longleftrightarrow> s = []"
  by (cases s) (auto split: list.splits)

lemma full_line_Cons: "c \<noteq> LF \<Longrightarrow> c \<noteq> CR \<Longrightarrow> full_line l \<Longrightarrow> full_line (c # l)"
  by (auto simp: full_line_def)

lemma open_line_Cons: "c \<noteq> LF \<Longrightarrow> c \<noteq> CR \<Longrightarrow> open_line l \<Longrightarrow> open_line (c # l)"
  by (auto simp: open_line_def)

lemma lines_ok_keep_ends: "CR \<notin> set s \<Longrightarrow> lines_ok (keep_ends s)"
proof (induction s)
  case Nil
  then show ?case by simp
next
  case (Cons c cs)
  then have ih: "lines_ok (keep_ends cs)" by simp
  show ?case
  proof (cases "c = LF")
    case True
    then show ?thesis using ih by (cases "keep_ends cs") (auto simp: full_line_def)
  next
    case False
    note nlf = this
    have ncr: "c \<noteq> CR" using Cons.prems by auto
    show ?thesis
    proof (cases "keep_ends cs")
      case Nil
      then show ?thesis using nlf ncr by (simp add: open_line_def)
    next
      case (Cons l ls)
      then show ?thesis using ih nlf ncr
        by (cases ls) (auto simp: full_line_Cons open_line_Cons)
    qed
  qed
qed

lemma keep_ends_open: "s \<noteq> [] \<Longrightarrow> LF \<notin> set s \<Longrightarrow> keep_ends s = [s]"
proof (induction s)
  case Nil
  then show ?case by simp
next
  case (Cons c cs)
  show ?case
  proof (cases "cs = []")
    case True
    then show ?thesis using Cons.prems by simp
  next
    case False
    then have "keep_ends cs = [cs]" using Cons by simp
    then show ?thesis using Cons.prems by auto
  qed
qed

lemma keep_ends_body: "LF \<notin> set body \<Longrightarrow> keep_ends (body @ LF # rest) = (body @ [LF]) # keep_ends rest"
  by (induction body) auto

lemma full_lineD: "full_line l \<Longrightarrow> \<exists>body. l = body @ [LF] \<and> LF \<notin> set body \<and> CR \<notin> set body"
  unfolding full_line_def
  by (metis append_butlast_last_id in_set_butlastD)

lemma keep_ends_full: "full_line l \<Longrightarrow> keep_ends (l @ rest) = l # keep_ends rest"
  using full_lineD[of l] keep_ends_body by fastforce

lemma keep_ends_concat: "lines_ok ls \<Longrightarrow> keep_ends (concat ls) = ls"
  by (induction ls rule: lines_ok.induct) (auto simp: keep_ends_full keep_ends_open open_line_def dest: keep_ends_full[where rest="[]"])

lemma lines_ok_no_CR: "lines_ok ls \<Longrightarrow> CR \<notin> set (concat ls)"
  by (induction ls rule: lines_ok.induct) (auto simp: full_line_def open_line_def)

lemma py_readlines_concat: "lines_ok ls \<Longrightarrow> py_readlines (concat ls) = ls"
proof -
  assume ok: "lines_ok ls"
  have "universal_newlines (concat ls) = concat ls"
    by (rule universal_newlines_id) (rule lines_ok_no_CR [OF ok])
  then show ?thesis
    unfolding py_readlines_def using keep_ends_concat [OF ok] by simp
qed

lemma lines_ok_py_readlines: "lines_ok (py_readlines c)"
  by (simp add: py_readlines_def lines_ok_keep_ends universal_newlines_no_CR)

lemma lines_ok_map:
  assumes "lines_ok ls" and "\<And>l. l \<in> set ls \<Longrightarrow> g l = l \<or> full_line (g l)"
  shows "lines_ok (map g ls)"
  using assms
proof (induction ls rule: lines_ok.induct)
  case 1
  then show ?case by simp
next
  case (2 l)
  then show ?case by auto
next
  case (3 l v va)
  then show ?case by (metis list.set_intros(1,2) list.simps(9) lines_ok.simps(3))
qed

section \<open>Lemmas on the rewriting loops\<close>

lemma full_line_snoc: "LF \<notin> set body \<Longrightarrow> CR \<notin> set body \<Longrightarrow> full_line (body @ [LF])"
  by (simp add: full_line_def)

lemma full_line_team_id_line: "no_line_break t \<Longrightarrow> full_line (team_id_line t)"
  using full_line_snoc [of "''      team_id: '' @ t @ '' # must be consistant with GameControl''"]
  by (simp add: team_id_line_def no_line_break_def)

lemma full_line_player_id_line: "no_line_break p \<Longrightarrow> full_line (player_id_line p)"
  using full_line_snoc [of "''      player_id: '' @ p @ '' # 1 | 2 | 3 | 4 | 5''"]
  by (simp add: player_id_line_def no_line_break_def)

lemma full_line_player_role_line: "no_line_break v \<Longrightarrow> full_line (player_role_line v)"
  using full_line_snoc [of "''      player_role: '' @ [double_quote] @ v @ [double_quote] @ '' # striker | goal_keeper''"]
  by (simp add: player_role_line_def no_line_break_def)

lemma fst_patch_role_line:
  "fst (patch_role_line v line) = (if sublist ''player_role'' line then player_role_line v else line)"
  by (simp add: patch_role_line_def player_role_line_def)

lemma set_py_split_on: "x \<in> set (py_split_on sep s) \<Longrightarrow> set x \<subseteq> set s"
proof (induction s arbitrary: x)
  case Nil
  then show ?case by simp
next
  case (Cons c cs)
  show ?case
  proof (cases "c = sep")
    case True
    then show ?thesis using Cons by auto
  next
    case False
    show ?thesis
    proof (cases "py_split_on sep cs")
      case Nil
      then show ?thesis using Cons False by auto
    next
      case (Cons t ts)
      then show ?thesis using Cons.IH Cons.prems False by fastforce
    qed
  qed
qed

lemma derive_ids_parts:
  assumes "derive_ids s = Return (t, p)"
  shows "set t \<subseteq> set s \<and> set p \<subseteq> set s"
proof -
  have "drop 2 (py_split_on CHR ''.'' s) = [t, p]"
    using assms
    by (auto simp: derive_ids_def split: list.splits)
  then have "t \<in> set (py_split_on CHR ''.'' s)" and "p \<in> set (py_split_on CHR ''.'' s)"
    by (metis in_set_dropD list.set_intros(1), metis in_set_dropD list.set_intros(1,2))
  then show ?thesis using set_py_split_on by blast
qed

lemma derive_ids_no_line_break:
  assumes "derive_ids s = Return (t, p)" and "no_line_break s"
  shows "no_line_break t \<and> no_line_break p"
  using derive_ids_parts [OF assms(1)] assms(2) by (auto simp: no_line_break_def)

text \<open>A rewriting loop whose new lines are full lines keeps the frame.\<close>

lemma rewrite_readlines:
  assumes "\<And>l. g l = l \<or> full_line (g l)"
  shows "py_readlines (concat (map g (py_readlines c))) = map g (py_readlines c)"
  by (rule py_readlines_concat) (rule lines_ok_map [OF lines_ok_py_readlines], rule assms)

lemma rewrite_keep_ends:
  assumes "\<And>l. g l = l \<or> full_line (g l)"
  shows "keep_ends (concat (map g (py_readlines c))) = map g (py_readlines c)"
  by (rule keep_ends_concat) (rule lines_ok_map [OF lines_ok_py_readlines], rule assms)

lemma rewrite_frame:
  assumes "\<And>l. g l = l \<or> full_line (g l)"
    and "\<And>l. \<not> list_ex (\<lambda>key. sublist key l) keys \<Longrightarrow> g l = l"
  shows "frame_kept keys (universal_newlines c) (concat (map g (py_readlines c)))"
proof -
  have "list_all2 (\<lambda>old_line new_line. list_ex (\<lambda>key. sublist key old_line) keys \<or> new_line = old_line)
          (py_readlines c) (map g (py_readlines c))"
    using assms(2) by (auto simp: list_all2_map2 intro!: list_all2_same [THEN iffD2])
  then show ?thesis
    unfolding frame_kept_def rewrite_keep_ends [of g, OF assms(1)]
    by (simp add: py_readlines_def)
qed

lemma rewrite_twice:
  assumes "\<And>l. g l = l \<or> full_line (g l)" and "\<And>l. g (g l) = g l"
  shows "concat (map g (py_readlines (concat (map g (py_readlines c)))))
           = concat (map g (py_readlines c))"
  unfolding rewrite_readlines [of g, OF assms(1)]
  by (simp add: assms(2) comp_def)


lemma sublist_across:
  assumes "sublist n (a @ c # b)" and "c \<notin> set n"
  shows "sublist n a \<or> sublist n b"
proof -
  from assms(1) consider "sublist n a" | "sublist n (c # b)"
    | n1 n2 where "n = n1 @ n2" "suffix n1 a" "prefix n2 (c # b)"
    unfolding sublist_append by blast
  then show ?thesis
  proof cases
    case 1
    then show ?thesis by simp
  next
    case 2
    then have "prefix n (c # b) \<or> sublist n b" by (simp add: sublist_Cons_right)
    then show ?thesis
      using assms(2) by (cases n) (auto simp: prefix_Cons)
  next
    case 3
    show ?thesis
    proof (cases n2)
      case Nil
      then show ?thesis using 3 by (auto intro: suffix_imp_sublist)
    next
      case (Cons x xs)
      then have "x = c" using 3(3) by simp
      then show ?thesis using 3(1) Cons assms(2) by simp
    qed
  qed
qed

lemma team_id_not_in_player_id_line:
  assumes "\<not> sublist ''team_id'' p"
  shows "\<not> sublist ''team_id'' (player_id_line p)"
proof
  assume "sublist ''team_id'' (player_id_line p)"
  then have "sublist ''team_id'' (''      player_id:'' @ CHR '' '' # (p @ CHR '' '' # (''# 1 | 2 | 3 | 4 | 5'' @ [LF])))"
    by (simp add: player_id_line_def)
  then have "sublist ''team_id'' ''      player_id:''
             \<or> sublist ''team_id'' (p @ CHR '' '' # (''# 1 | 2 | 3 | 4 | 5'' @ [LF]))"
    by (rule sublist_across) simp
  moreover have "\<not> sublist ''team_id'' ''      player_id:''"
    by code_simp
  ultimately have "sublist ''team_id'' (p @ CHR '' '' # (''# 1 | 2 | 3 | 4 | 5'' @ [LF]))"
    by blast
  then have "sublist ''team_id'' p \<or> sublist ''team_id'' (''# 1 | 2 | 3 | 4 | 5'' @ [LF])"
    by (rule sublist_across) simp
  moreover have "\<not> sublist ''team_id'' (''# 1 | 2 | 3 | 4 | 5'' @ [LF])"
    by code_simp
  ultimately show False using assms by blast
qed

lemma team_id_in_team_id_line: "sublist ''team_id'' (team_id_line t)"
  using sublist_appendI [of "''team_id''" "''      ''" "'': '' @ t @ '' # must be consistant with GameControl'' @ [LF]"]
  by (simp add: team_id_line_def)

lemma player_id_in_player_id_line: "sublist ''player_id'' (player_id_line p)"
  using sublist_appendI [of "''player_id''" "''      ''" "'': '' @ p @ '' # 1 | 2 | 3 | 4 | 5'' @ [LF]"]
  by (simp add: player_id_line_def)

lemma player_role_in_player_role_line: "sublist ''player_role'' (player_role_line v)"
  using sublist_appendI [of "''player_role''" "''      ''" "'': '' @ [double_quote] @ v @ [double_quote] @ '' # striker | goal_keeper'' @ [LF]"]
  by (simp add: player_role_line_def)

lemma patch_ids_line_shape:
  assumes "no_line_break t" and "no_line_break p"
  shows "fst (patch_ids_line t p l) = l \<or> full_line (fst (patch_ids_line t p l))"
  using assms
  by (simp add: fst_patch_ids_line full_line_team_id_line full_line_player_id_line)

lemma patch_ids_line_frame:
  assumes "\<not> list_ex (\<lambda>key. sublist key l) [''team_id'', ''player_id'']"
  shows "fst (patch_ids_line t p l) = l"
  using assms by (simp add: fst_patch_ids_line)

lemma patch_ids_line_twice:
  assumes "\<not> sublist ''team_id'' p"
  shows "fst (patch_ids_line t p (fst (patch_ids_line t p l))) = fst (patch_ids_line t p l)"
  using team_id_not_in_player_id_line [OF assms]
  by (simp add: fst_patch_ids_line team_id_in_team_id_line player_id_in_player_id_line)

lemma patch_role_line_shape:
  assumes "no_line_break v"
  shows "fst (patch_role_line v l) = l \<or> full_line (fst (patch_role_line v l))"
  using assms by (simp add: fst_patch_role_line full_line_player_role_line)

lemma patch_role_line_frame:
  assumes "\<not> list_ex (\<lambda>key. sublist key l) [''player_role'']"
  shows "fst (patch_role_line v l) = l"
  using assms by (simp add: fst_patch_role_line)

lemma patch_role_line_twice:
  "fst (patch_role_line v (fst (patch_role_line v l))) = fst (patch_role_line v l)"
  by (simp add: fst_patch_role_line player_role_in_player_role_line)

lemma patched_ids_text_map:
  "patched_ids_text t p c = concat (map (\<lambda>l. fst (patch_ids_line t p l)) (py_readlines c))"
  by (simp add: patched_ids_text_def comp_def)

lemma patched_role_text_map:
  "patched_role_text v c = concat (map (\<lambda>l. fst (patch_role_line v l)) (py_readlines c))"
  by (simp add: patched_role_text_def comp_def)

lemma purpose_no_line_break:
  "v \<in> set [''striker'', ''goal_keeper''] \<Longrightarrow> no_line_break v"
  by (auto simp: no_line_break_def)

lemma patched_ids_frame:
  assumes "no_line_break t" and "no_line_break p"
  shows "frame_kept [''team_id'', ''player_id''] (universal_newlines c) (patched_ids_text t p c)"
  unfolding patched_ids_text_map
  by (rule rewrite_frame) (rule patch_ids_line_shape [OF assms], rule patch_ids_line_frame)

lemma patched_role_frame:
  assumes "no_line_break v"
  shows "frame_kept [''player_role''] (universal_newlines c) (patched_role_text v c)"
  unfolding patched_role_text_map
  by (rule rewrite_frame) (rule patch_role_line_shape [OF assms], rule patch_role_line_frame)

lemma patched_ids_twice:
  assumes "no_line_break t" and "no_line_break p" and "\<not> sublist ''team_id'' p"
  shows "patched_ids_text t p (patched_ids_text t p c) = patched_ids_text t p c"
  unfolding patched_ids_text_map
  by (rule rewrite_twice) (rule patch_ids_line_shape [OF assms(1,2)], rule patch_ids_line_twice [OF assms(3)])

lemma patched_role_twice:
  assumes "no_line_break v"
  shows "patched_role_text v (patched_role_text v c) = patched_role_text v c"
  unfolding patched_role_text_map
  by (rule rewrite_twice) (rule patch_role_line_shape [OF assms], rule patch_role_line_twice)

lemma configure_purpose_file:
  assumes "read_current_purpose (py_readlines (config_yaml st)) = Return current_purpose"
    and "stdin st = line # rest"
    and "py_lower (py_strip line) \<in> set [''striker'', ''goal_keeper'']"
  shows "config_yaml (snd (configure_purpose st))
           = patched_role_text (py_lower (py_strip line)) (config_yaml st)"
    and "stdin (snd (configure_purpose st)) = rest"
    and "fst (configure_purpose st) = Return ()"
  using configure_purpose_accepts [OF assms] by simp_all

lemma read_current_purpose_patched:
  assumes "v \<in> set [''striker'', ''goal_keeper'']"
  shows "\<exists>cur. read_current_purpose (map (\<lambda>l. fst (patch_role_line v l)) ls) = Return cur"
proof -
  have first: "(case py_split_on double_quote (py_lstrip (player_role_line v)) of
                  [] \<Rightarrow> Raise IndexError
                | [a] \<Rightarrow> Raise IndexError
                | a # current_purpose # others \<Rightarrow> Return current_purpose) = Return v"
  proof -
    have "(case py_split_on double_quote (py_lstrip (player_role_line ''striker'')) of
                  [] \<Rightarrow> Raise IndexError
                | [a] \<Rightarrow> Raise IndexError
                | a # current_purpose # others \<Rightarrow> Return current_purpose) = Return ''striker''"
      by code_simp
    moreover have "(case py_split_on double_quote (py_lstrip (player_role_line ''goal_keeper'')) of
                  [] \<Rightarrow> Raise IndexError
                | [a] \<Rightarrow> Raise IndexError
                | a # current_purpose # others \<Rightarrow> Return current_purpose) = Return ''goal_keeper''"
      by code_simp
    ultimately show ?thesis using assms by auto
  qed
  show ?thesis
  proof (induction ls)
    case Nil
    then show ?case by simp
  next
    case (Cons l ls)
    show ?case
    proof (cases "sublist ''player_role'' l")
      case True
      then show ?thesis
        using first
        by (simp add: fst_patch_role_line player_role_in_player_role_line)
    next
      case False
      then show ?thesis using Cons by (simp add: fst_patch_role_line)
    qed
  qed
qed

lemma read_current_purpose_after_patch:
  assumes "v \<in> set [''striker'', ''goal_keeper'']"
  shows "\<exists>cur. read_current_purpose (py_readlines (patched_role_text v c)) = Return cur"
proof -
  have "py_readlines (patched_role_text v c) = map (\<lambda>l. fst (patch_role_line v l)) (py_readlines c)"
    unfolding patched_role_text_map
    by (rule rewrite_readlines) (rule patch_role_line_shape [OF purpose_no_line_break [OF assms]])
  then show ?thesis using read_current_purpose_patched [OF assms] by simp
qed

lemma apply_configuration_twice:
  assumes "derive_ids (ip cfg) = Return (team_id, player_id)" and "no_line_break (ip cfg)"
    and "\<not> sublist ''team_id'' player_id"
  shows "config_yaml (snd (apply_configuration w2 cfg (snd (apply_configuration w1 cfg st))))
        = config_yaml (snd (apply_configuration w1 cfg st))"
proof -
  have "no_line_break team_id" and "no_line_break player_id"
    using derive_ids_no_line_break [OF assms(1,2)] by simp_all
  then show ?thesis
    using assms by (simp add: apply_configuration_file patched_ids_twice)
qed

lemma configure_purpose_twice:
  assumes "read_current_purpose (py_readlines (config_yaml st)) = Return current_purpose"
    and "stdin st = line1 # line2 # rest"
    and "py_lower (py_strip line1) \<in> set [''striker'', ''goal_keeper'']"
    and "py_lower (py_strip line2) = py_lower (py_strip line1)"
  shows "fst (configure_purpose (snd (configure_purpose st))) = Return ()
      \<and> config_yaml (snd (configure_purpose (snd (configure_purpose st))))
            = config_yaml (snd (configure_purpose st))"
proof -
  define v where "v = py_lower (py_strip line1)"
  define st1 where "st1 = snd (configure_purpose st)"
  have v: "v \<in> set [''striker'', ''goal_keeper'']" and v2: "py_lower (py_strip line2) = v"
    using assms(3,4) by (simp_all add: v_def)
  have f1: "config_yaml st1 = patched_role_text v (config_yaml st)"
    and i1: "stdin st1 = line2 # rest"
    using configure_purpose_file(1,2) [OF assms(1,2,3)]
    by (simp_all add: st1_def v_def)
  obtain cur where r1: "read_current_purpose (py_readlines (config_yaml st1)) = Return cur"
    using read_current_purpose_after_patch [OF v] f1 by auto
  have v2': "py_lower (py_strip line2) \<in> set [''striker'', ''goal_keeper'']"
    using v v2 by simp
  have f2: "config_yaml (snd (configure_purpose st1)) = patched_role_text v (config_yaml st1)"
    and o2: "fst (configure_purpose st1) = Return ()"
    using configure_purpose_file(1,3) [OF r1 i1 v2'] v2 by simp_all
  have "config_yaml (snd (configure_purpose st1)) = config_yaml st1"
    using f2 f1 patched_role_twice [OF purpose_no_line_break [OF v]] by simp
  then show ?thesis
    using o2 by (simp add: st1_def)
qed

section \<open>Deriving the ids (C1)\<close>

text \<open>
  C1. When the configured IP splits at its dots into exactly four parts, the Derive step
  of \<open>apply_configuration\<close> succeeds and takes the third part as \<open>team_id\<close> and the
  fourth as \<open>player_id\<close>, and these are the two values the file is patched with,
  whatever happens afterwards. The witness is the default IP 192.168.57.45, giving 57
  and 45.
\<close>

theorem derive_ids_octets:
  assumes "length (py_split_on CHR ''.'' (ip cfg)) = 4"
  shows "derive_ids (ip cfg)
           = Return (py_split_on CHR ''.'' (ip cfg) ! 2, py_split_on CHR ''.'' (ip cfg) ! 3)
       \<and> config_yaml (snd (apply_configuration w cfg st))
           = patched_ids_text (py_split_on CHR ''.'' (ip cfg) ! 2)
               (py_split_on CHR ''.'' (ip cfg) ! 3) (config_yaml st)"
proof -
  obtain a b c d where "py_split_on CHR ''.'' (ip cfg) = [a, b, c, d]"
    using assms by (auto simp: length_Suc_conv numeral_eq_Suc)
  then have "derive_ids (ip cfg)
           = Return (py_split_on CHR ''.'' (ip cfg) ! 2, py_split_on CHR ''.'' (ip cfg) ! 3)"
    by (simp add: derive_ids_def)
  then show ?thesis
    by (simp add: apply_configuration_file)
qed

theorem derive_ids_octets_witness:
  "length (py_split_on CHR ''.'' ''192.168.57.45'') = 4
   \<and> ip default_config = ''192.168.57.45''
   \<and> derive_ids (ip default_config) = Return (''57'', ''45'')
   \<and> config_yaml (snd (apply_configuration unprivileged_world default_config
                          (initial_state example_yaml [])))
       = patched_ids_text ''57'' ''45'' example_yaml"
  using derive_ids_octets [where cfg = default_config and w = unprivileged_world
      and st = "initial_state example_yaml []"]
  by (simp add: default_config_def initial_state_def)

section \<open>The privilege gate (C2)\<close>

text \<open>
  C2. When the answer of \<open>id -u\<close>, stripped, is not \<open>0\<close>, \<open>apply_configuration\<close> runs
  no command that changes the network, for every configuration. If the IP has no two
  trailing parts to unpack, it stops with \<open>ValueError\<close> before it touches anything;
  otherwise its trace is \<open>unprivileged_trace\<close>: the patched file is written first, the
  privilege check \<open>id -u\<close> comes after it, and the file keeps the patch.
\<close>

theorem apply_configuration_unprivileged:
  assumes "py_strip (stdout (w (executed (events st)) [''id'', ''-u''])) \<noteq> ''0''"
  shows "(case derive_ids (ip cfg) of
            Raise e \<Rightarrow>
              apply_configuration w cfg st =
                (Raise e,
                 st\<lparr>events := events st
                      @ [Print (''Applying team and player id configurations...'' @ [LF])]\<rparr>)
          | Return (team_id, player_id) \<Rightarrow>
              apply_configuration w cfg st =
                (Return (),
                 st\<lparr>events := events st
                        @ unprivileged_trace cfg team_id player_id (config_yaml st),
                    config_yaml := patched_ids_text team_id player_id (config_yaml st)\<rparr>))
       \<and> \<not> list_ex mutating_call
             (executed (new_events st (snd (apply_configuration w cfg st))))"
proof (cases "derive_ids (ip cfg)")
  case (Raise e)
  then show ?thesis
    by (simp add: apply_configuration_bad_ip new_events_def)
next
  case (Return ids)
  obtain team_id player_id where ids: "ids = (team_id, player_id)" by (cases ids)
  have run: "apply_configuration w cfg st =
           (Return (),
            st\<lparr>events := events st @ unprivileged_trace cfg team_id player_id (config_yaml st),
               config_yaml := patched_ids_text team_id player_id (config_yaml st)\<rparr>)"
    using assms Return ids by (simp add: apply_configuration_unprivileged_run)
  have "\<not> mutating_call [''id'', ''-u'']"
    by (simp add: mutating_call_def)
  then show ?thesis
    using Return ids run by (simp add: new_events_def executed_unprivileged_trace)
qed

theorem apply_configuration_unprivileged_witness:
  "py_strip (stdout (unprivileged_world [] [''id'', ''-u''])) \<noteq> ''0''
   \<and> fst (apply_configuration unprivileged_world default_config (initial_state example_yaml []))
       = Return ()
   \<and> new_events (initial_state example_yaml [])
        (snd (apply_configuration unprivileged_world default_config
                (initial_state example_yaml [])))
       = unprivileged_trace default_config ''57'' ''45'' example_yaml
   \<and> config_yaml (snd (apply_configuration unprivileged_world default_config
                          (initial_state example_yaml [])))
       = ''name: x'' @ [LF]
         @ ''      team_id: 57 # must be consistant with GameControl'' @ [LF]
         @ ''      player_id: 45 # 1 | 2 | 3 | 4 | 5'' @ [LF]
         @ ''player_role: '' @ [double_quote] @ ''striker'' @ [double_quote] @ [LF]"
proof -
  have unpriv: "py_strip (stdout (unprivileged_world (executed (events (initial_state example_yaml [])))
                  [''id'', ''-u''])) \<noteq> ''0''"
    by (simp add: unprivileged_world_def py_strip_def py_isspace_def)
  have ids: "derive_ids (ip default_config) = Return (''57'', ''45'')"
    by (simp add: derive_ids_def default_config_def)
  have patched: "patched_ids_text ''57'' ''45'' example_yaml
       = ''name: x'' @ [LF]
         @ ''      team_id: 57 # must be consistant with GameControl'' @ [LF]
         @ ''      player_id: 45 # 1 | 2 | 3 | 4 | 5'' @ [LF]
         @ ''player_role: '' @ [double_quote] @ ''striker'' @ [double_quote] @ [LF]"
    by (simp add: patched_ids_text_def example_yaml_def py_readlines_def patch_ids_line_def
        sublist_code)
  show ?thesis
    using apply_configuration_unprivileged [where w = unprivileged_world
        and st = "initial_state example_yaml []" and cfg = default_config] unpriv ids patched
    by (simp add: new_events_def initial_state_def)
qed

section \<open>The menu (C10)\<close>

text \<open>
  C10. The menu shows the line \<open>10. Configure player id\<close>, yet a choice that strips to
  \<open>10\<close> reaches no handler: the iteration prints the menu, the prompt and the
  invalid-option message, consumes the input line and changes nothing else (no command,
  no file write, the configuration as it was); the loop goes on from that state; and any
  other unrecognised choice gives the very same result.
\<close>

theorem main_menu_option_10:
  assumes "stdin st = line # rest" and "py_strip line = ''10''"
  shows "Print ''10. Configure player id'' \<in> set menu_text
       \<and> menu_iteration w st = (Return (), after_invalid_option st rest)
       \<and> main_menu w st = main_menu w (after_invalid_option st rest)
       \<and> (\<forall>other. py_strip other \<notin> set recognised_options \<longrightarrow>
            menu_iteration w (st\<lparr>stdin := other # rest\<rparr>) = menu_iteration w st)"
proof -
  have unrec: "py_strip line \<notin> set recognised_options"
    using assms(2) by (simp add: recognised_options_def)
  have it: "menu_iteration w st = (Return (), after_invalid_option st rest)"
    by (rule menu_iteration_unrecognised [OF assms(1) unrec])
  have shown: "Print ''10. Configure player id'' \<in> set menu_text"
    by (simp add: menu_text_def)
  have loop: "main_menu w st = main_menu w (after_invalid_option st rest)"
    by (subst main_menu.simps) (simp add: it)
  have same: "menu_iteration w (st\<lparr>stdin := other # rest\<rparr>) = menu_iteration w st"
    if "py_strip other \<notin> set recognised_options" for other
  proof -
    have "menu_iteration w (st\<lparr>stdin := other # rest\<rparr>)
            = (Return (), after_invalid_option (st\<lparr>stdin := other # rest\<rparr>) rest)"
      by (rule menu_iteration_unrecognised [OF _ that]) simp
    then show ?thesis by (simp add: it after_invalid_option_def)
  qed
  show ?thesis using shown it loop same by blast
qed

theorem main_menu_option_10_witness:
  "stdin (initial_state example_yaml ['' 10 '', ''0'']) = '' 10 '' # [''0'']
   \<and> py_strip '' 10 '' = ''10''
   \<and> menu_iteration unprivileged_world (initial_state example_yaml ['' 10 '', ''0''])
       = (Return (),
          \<lparr>events = menu_text
              @ [Prompt ''Select option: '', Print ''Invalid option. Please try again.''],
           config_yaml = example_yaml, stdin = [''0''], config = default_config\<rparr>)
   \<and> py_strip ''x'' \<notin> set recognised_options
   \<and> menu_iteration unprivileged_world (initial_state example_yaml [''x'', ''0''])
       = menu_iteration unprivileged_world (initial_state example_yaml ['' 10 '', ''0''])"
proof -
  have a: "stdin (initial_state example_yaml ['' 10 '', ''0'']) = '' 10 '' # [''0'']"
    by (simp add: initial_state_def)
  have b: "py_strip '' 10 '' = ''10''"
    by (simp add: py_strip_def py_isspace_def)
  have c: "py_strip ''x'' \<notin> set recognised_options"
    by (simp add: py_strip_def py_isspace_def recognised_options_def)
  show ?thesis
    using main_menu_option_10 [OF a b, of unprivileged_world] a b c
    by (simp add: initial_state_def after_invalid_option_def)
qed

section \<open>Which lines the id patch rewrites (C9)\<close>

text \<open>
  C9. Whenever the ids can be derived, and whatever the network part does afterwards,
  the file \<open>apply_configuration\<close> leaves is the file read line by line with every line
  that contains \<open>team_id\<close> anywhere replaced by the team line, every other line that
  contains \<open>player_id\<close> anywhere replaced by the player line, and the rest kept. A line
  holding both keys, in either order, becomes the team line only and only the team
  message is printed for it.
\<close>

theorem patch_ids_precedence:
  assumes "derive_ids (ip cfg) = Return (team_id, player_id)"
  shows "config_yaml (snd (apply_configuration w cfg st))
           = concat (map (\<lambda>line. if sublist ''team_id'' line then team_id_line team_id
                                  else if sublist ''player_id'' line then player_id_line player_id
                                  else line)
                       (py_readlines (config_yaml st)))
       \<and> (\<forall>pre mid post.
             patch_ids_line team_id player_id (pre @ ''player_id'' @ mid @ ''team_id'' @ post)
               = (team_id_line team_id, [Print (''New team id set: '' @ team_id)])
           \<and> patch_ids_line team_id player_id (pre @ ''team_id'' @ mid @ ''player_id'' @ post)
               = (team_id_line team_id, [Print (''New team id set: '' @ team_id)]))
       \<and> (\<forall>pre post. \<not> sublist ''team_id'' (pre @ ''player_id'' @ post) \<longrightarrow>
             patch_ids_line team_id player_id (pre @ ''player_id'' @ post)
               = (player_id_line player_id, [Print (''New player id set: '' @ player_id)]))"
proof -
  have a: "config_yaml (snd (apply_configuration w cfg st))
           = concat (map (\<lambda>line. if sublist ''team_id'' line then team_id_line team_id
                                  else if sublist ''player_id'' line then player_id_line player_id
                                  else line)
                       (py_readlines (config_yaml st)))"
    using apply_configuration_file [OF assms, of w st]
    by (simp add: patched_ids_text_def comp_def fst_patch_ids_line)
  have b: "patch_ids_line team_id player_id (pre @ ''player_id'' @ mid @ ''team_id'' @ post)
               = (team_id_line team_id, [Print (''New team id set: '' @ team_id)])"
    for pre mid post
    using sublist_mid [of "''team_id''" pre "''player_id'' @ mid" post]
    by (simp add: patch_ids_line_def team_id_line_def)
  have c: "patch_ids_line team_id player_id (pre @ ''team_id'' @ mid @ ''player_id'' @ post)
               = (team_id_line team_id, [Print (''New team id set: '' @ team_id)])"
    for pre mid post
    using sublist_mid3 [of "''team_id''" pre mid "''player_id'' @ post"]
    by (simp add: patch_ids_line_def team_id_line_def)
  have d: "patch_ids_line team_id player_id (pre @ ''player_id'' @ post)
               = (player_id_line player_id, [Print (''New player id set: '' @ player_id)])"
    if "\<not> sublist ''team_id'' (pre @ ''player_id'' @ post)" for pre post
    using that sublist_appendI [of "''player_id''" pre post]
    by (simp add: patch_ids_line_def player_id_line_def)
  show ?thesis using a b c d by blast
qed

theorem patch_ids_precedence_witness:
  "derive_ids (ip default_config) = Return (''57'', ''45'')
   \<and> config_yaml (snd (apply_configuration unprivileged_world default_config
                          (initial_state example_both_yaml [])))
       = team_id_line ''57'' @ player_id_line ''45''
   \<and> patch_ids_line ''57'' ''45'' ''player_id_of_team_id: 3''
       = (team_id_line ''57'', [Print ''New team id set: 57''])"
proof -
  have ids: "derive_ids (ip default_config) = Return (''57'', ''45'')"
    by (simp add: derive_ids_def default_config_def)
  have shape: "''player_id_of_team_id: 3'' = [] @ ''player_id'' @ ''_of_'' @ ''team_id'' @ '': 3''"
    by simp
  have both: "patch_ids_line ''57'' ''45'' ([] @ ''player_id'' @ ''_of_'' @ ''team_id'' @ '': 3'')
                = (team_id_line ''57'', [Print (''New team id set: '' @ ''57'')])"
    using patch_ids_precedence [OF ids] by blast
  have written: "config_yaml (snd (apply_configuration unprivileged_world default_config
                          (initial_state example_both_yaml [])))
       = team_id_line ''57'' @ player_id_line ''45''"
    using patch_ids_precedence [OF ids, of unprivileged_world "initial_state example_both_yaml []"]
    by (simp add: initial_state_def example_both_yaml_def py_readlines_def sublist_code)
  show ?thesis using ids both written by simp
qed

section \<open>Rejected purposes (C8)\<close>

text \<open>
  C8. Once the current purpose has been read and an input line is there, an input whose
  stripped, lower-cased form is neither \<open>striker\<close> nor \<open>goal_keeper\<close> (the empty line
  as well) makes \<open>configure_purpose\<close> print the invalid-purpose message and return with
  the file unchanged. And in no run at all, whatever the file and the input, is
  \<open>No new purpose provided\<close> printed: that branch is unreachable.
\<close>

theorem configure_purpose_invalid_input:
  assumes "read_current_purpose (py_readlines (config_yaml st)) = Return current_purpose"
    and "stdin st = line # rest"
    and "py_lower (py_strip line) \<notin> set [''striker'', ''goal_keeper'']"
  shows "configure_purpose st =
           (Return (),
            st\<lparr>events := events st @ [Print (''Current purpose: '' @ current_purpose),
                                        Prompt purpose_prompt,
                                        Print ''Invalid purpose. Please enter either striker or goal_keeper.''],
               stdin := rest\<rparr>)
       \<and> config_yaml (snd (configure_purpose st)) = config_yaml st
       \<and> (\<forall>any. Print ''No new purpose provided''
                   \<notin> set (new_events any (snd (configure_purpose any))))"
  using configure_purpose_rejects [OF assms] no_new_purpose_unreachable by simp

theorem configure_purpose_invalid_input_witness:
  "read_current_purpose (py_readlines (config_yaml (initial_state example_yaml [[]])))
     = Return ''striker''
   \<and> py_lower (py_strip []) \<notin> set [''striker'', ''goal_keeper'']
   \<and> configure_purpose (initial_state example_yaml [[]]) =
        (Return (),
         \<lparr>events = [Print ''Current purpose: striker'', Prompt purpose_prompt,
                     Print ''Invalid purpose. Please enter either striker or goal_keeper.''],
          config_yaml = example_yaml, stdin = [], config = default_config\<rparr>)"
proof -
  have cur: "read_current_purpose (py_readlines (config_yaml (initial_state example_yaml [[]])))
     = Return ''striker''"
    by (simp add: initial_state_def example_yaml_def py_readlines_def sublist_code
        py_lstrip_def py_isspace_def)
  have inp: "stdin (initial_state example_yaml [[]]) = [] # []"
    by (simp add: initial_state_def)
  have bad: "py_lower (py_strip []) \<notin> set [''striker'', ''goal_keeper'']"
    by (simp add: py_lower_def py_strip_def)
  show ?thesis
    using configure_purpose_invalid_input [OF cur inp bad] cur bad
    by (simp add: initial_state_def)
qed

section \<open>Listing the networks (C7)\<close>

text \<open>
  C7, as the source has it. \<open>get_available_networks\<close> runs the one listing command, no
  rescan. When the command exits with 0 it returns the names the specification describes
  (the second tokens of the non-blank rows that are not the header, each once, in
  first-seen order) except the name \<open>SSID\<close>, which the source leaves out wherever it
  stands; when the command fails it returns the empty list. On the rows
  \<open>IN-USE SSID MODE\<close>, \<open>* robocup-x Infra\<close>, \<open>* robocup-x Infra\<close> the result is
  the single name robocup-x.
\<close>

theorem get_available_networks_lists:
  "get_available_networks w st =
     (Return (if returncode (w (executed (events st)) [''nmcli'', ''device'', ''wifi'', ''list'']) = 0
              then filter (\<lambda>name. name \<noteq> ''SSID'')
                     (list_networks_spec
                        (stdout (w (executed (events st)) [''nmcli'', ''device'', ''wifi'', ''list''])))
              else []),
      st\<lparr>events := events st @ [Exec [''nmcli'', ''device'', ''wifi'', ''list'']]\<rparr>)
   \<and> distinct (filter (\<lambda>name. name \<noteq> ''SSID'')
                 (list_networks_spec
                    (stdout (w (executed (events st)) [''nmcli'', ''device'', ''wifi'', ''list'']))))"
  by (simp add: get_available_networks_def prog_defs networks_loop list_networks_spec_def
      distinct_first_seen filter_first_seen)

theorem get_available_networks_lists_witness:
  "get_available_networks scan_world (initial_state example_yaml []) =
       (Return [''robocup-x''],
        \<lparr>events = [Exec [''nmcli'', ''device'', ''wifi'', ''list'']],
         config_yaml = example_yaml, stdin = [], config = default_config\<rparr>)
   \<and> get_available_networks unprivileged_world (initial_state example_yaml []) =
       (Return [],
        \<lparr>events = [Exec [''nmcli'', ''device'', ''wifi'', ''list'']],
         config_yaml = example_yaml, stdin = [], config = default_config\<rparr>)"
proof -
  have names: "filter (\<lambda>name. name \<noteq> ''SSID'')
                 (list_networks_spec
                    (stdout (scan_world [] [''nmcli'', ''device'', ''wifi'', ''list''])))
                 = [''robocup-x'']"
    by code_simp
  have ok: "returncode (scan_world [] [''nmcli'', ''device'', ''wifi'', ''list'']) = 0"
    by (simp add: scan_world_def)
  have failed: "returncode (unprivileged_world [] [''nmcli'', ''device'', ''wifi'', ''list'']) = 1"
    by (simp add: unprivileged_world_def)
  show ?thesis
    using get_available_networks_lists [where w = scan_world
        and st = "initial_state example_yaml []"]
      get_available_networks_lists [where w = unprivileged_world
        and st = "initial_state example_yaml []"] names ok failed
    by (simp add: initial_state_def)
qed

text \<open>
  As the claim states it, every second token of a row that is not blank and not the header
  is returned. A network that is named SSID is not: of the rows \<open>IN-USE SSID MODE\<close>,
  \<open>* SSID Infra\<close>, \<open>* home Infra\<close> the function returns \<open>home\<close> alone, where the
  specification's list holds both names.
\<close>

theorem get_available_networks_ssid_counterexample:
  "get_available_networks ssid_named_world (initial_state [] []) =
     (Return [''home''],
      \<lparr>events = [Exec [''nmcli'', ''device'', ''wifi'', ''list'']],
       config_yaml = [], stdin = [], config = default_config\<rparr>)
   \<and> list_networks_spec (stdout (ssid_named_world [] [''nmcli'', ''device'', ''wifi'', ''list'']))
       = [''SSID'', ''home'']"
  by code_simp

section \<open>reset_to_dhcp without a connected WiFi device (C3)\<close>

text \<open>
  C3. The source looks for the connected WiFi device by testing each row of the device
  status for the substrings \<open>wifi\<close> and \<open>connected\<close>. The state \<open>disconnected\<close>
  contains \<open>connected\<close>: on a host whose WiFi device is disconnected the function does
  not report \<open>No active WiFi connection found\<close>; it takes \<open>wlan0\<close> for the connected
  device, reads \<open>--\<close> as its connection name and runs \<open>nmcli connection modify --
  ipv4.method auto\<close>, a command that changes the network.
\<close>

theorem reset_to_dhcp_disconnected_row:
  "reset_to_dhcp disconnected_world (initial_state [] []) =
     (Return (),
      \<lparr>events =
         [Print ([LF] @ ''Resetting to DHCP...''),
          Exec [''nmcli'', ''device'', ''status''],
          Exec [''nmcli'', ''device'', ''show'', ''wlan0''],
          Print (''Resetting connection '' @ apostrophe @ ''--'' @ apostrophe @ '' to DHCP...''),
          Exec [''nmcli'', ''connection'', ''modify'', ''--'', ''ipv4.method'', ''auto''],
          PrintCalledProcessError
            [''nmcli'', ''connection'', ''modify'', ''--'', ''ipv4.method'', ''auto''] 10,
          Print ''Failed to modify connection: Error: unknown connection''],
       config_yaml = [], stdin = [], config = default_config\<rparr>)
   \<and> Print ''No active WiFi connection found''
         \<notin> set (events (snd (reset_to_dhcp disconnected_world (initial_state [] []))))
   \<and> list_ex mutating_call
         (executed (events (snd (reset_to_dhcp disconnected_world (initial_state [] [])))))"
  by code_simp

text \<open>
  What does hold: when the status command succeeds and no row of its output contains both
  substrings, the function reports that no active WiFi connection was found and runs
  nothing but the status command.
\<close>

theorem reset_to_dhcp_no_matching_row:
  assumes "returncode (w (executed (events st)) [''nmcli'', ''device'', ''status'']) = 0"
    and "\<forall>row \<in> set (py_splitlines
                        (stdout (w (executed (events st)) [''nmcli'', ''device'', ''status'']))).
           \<not> (sublist ''wifi'' (py_lower row) \<and> sublist ''connected'' (py_lower row))"
  shows "reset_to_dhcp w st =
           (Return (),
            st\<lparr>events := events st
                   @ [Print ([LF] @ ''Resetting to DHCP...''),
                      Exec [''nmcli'', ''device'', ''status''],
                      Print ''No active WiFi connection found'']\<rparr>)"
  using assms(1) find_wifi_interface_none [OF assms(2)]
  by (simp add: reset_to_dhcp_def prog_defs executed_append py_not_def)

theorem reset_to_dhcp_no_matching_row_witness:
  "reset_to_dhcp scan_world (initial_state [] []) =
     (Return (),
      \<lparr>events =
         [Print ([LF] @ ''Resetting to DHCP...''),
          Exec [''nmcli'', ''device'', ''status''],
          Print ''No active WiFi connection found''],
       config_yaml = [], stdin = [], config = default_config\<rparr>)"
proof -
  have ok: "returncode (scan_world (executed (events (initial_state [] [])))
              [''nmcli'', ''device'', ''status'']) = 0"
    by (simp add: scan_world_def)
  have rows: "\<forall>row \<in> set (py_splitlines
                        (stdout (scan_world (executed (events (initial_state [] [])))
                           [''nmcli'', ''device'', ''status'']))).
           \<not> (sublist ''wifi'' (py_lower row) \<and> sublist ''connected'' (py_lower row))"
    by code_simp
  show ?thesis
    using reset_to_dhcp_no_matching_row [where w = scan_world and st = "initial_state [] []"]
      ok rows
    by (simp add: initial_state_def)
qed

section \<open>The verdict of verify_connection (C4)\<close>

text \<open>
  C4. The claim has the second check pass only when an \<open>inet\<close> line holds the text
  \<open>ip/subnet\<close> as a token of its own. The source announces that it parses the address
  lines, yet it tests \<open>expected_ip_subnet in line\<close>, a substring. Configured with
  192.168.57.45/2 on the host that holds 192.168.57.45/27, with the four other checks
  passing, \<open>verify_connection\<close> reports the address as configured and returns true,
  though no token of the \<open>inet\<close> line equals \<open>192.168.57.45/2\<close>.
\<close>

theorem verify_connection_wrong_prefix_accepted:
  "fst (verify_connection connected_world
          (default_config\<lparr>subnet := ''2''\<rparr>) (initial_state [] []))
     = Return True
   \<and> Print (check_mark @ '' IP 192.168.57.45/2 is configured on wlp146s0'')
       \<in> set (events (snd (verify_connection connected_world
                              (default_config\<lparr>subnet := ''2''\<rparr>) (initial_state [] []))))
   \<and> \<not> ip_token_ok (default_config\<lparr>subnet := ''2''\<rparr>)
         (verify_output connected_world
            (default_config\<lparr>subnet := ''2''\<rparr>) (initial_state [] []) 1)"
  by code_simp

text \<open>
  What the function computes, for every configuration and every answers of its five
  commands: it returns true exactly when the SSID occurs in the active-connections text;
  \<open>ip addr show\<close> exits with 0 and one line of its output contains \<open>inet \<close> and
  contains the text \<open>ip/subnet\<close> as a substring; the gateway occurs in the
  default-route text; the resolver file is read with exit code 0 and the DNS address occurs
  in it; the WiFi listing exits with 0 and its first row that holds the interface between
  blanks, a star and two tokens has the SSID as its second token.
\<close>

theorem verify_connection_checks:
  "fst (verify_connection w cfg st) =
     Return (active_ok cfg (verify_output w cfg st 0)
             \<and> ip_ok cfg (verify_output w cfg st 1)
             \<and> gateway_ok cfg (verify_output w cfg st 2)
             \<and> dns_ok cfg (verify_output w cfg st 3)
             \<and> ssid_ok cfg (verify_output w cfg st 4))"
proof -
  define h where "h = executed (events st)"
  define s0 where "s0 = st\<lparr>events := events st @ [Print ''Verifying configuration...'']\<rparr>"
  have h0: "executed (events s0) = h"
    by (simp add: s0_def h_def executed_append)
  obtain s1 where r1: "verify_active w cfg True s0 = (Return (True \<and> active_ok cfg (w h [''nmcli'', ''connection'', ''show'', ''--active''])), s1)"
    and h1: "executed (events s1) = h @ [[''nmcli'', ''connection'', ''show'', ''--active'']]"
    using verify_active_run [of w cfg True s0] h0 by auto
  define g1 where "g1 = active_ok cfg (w h [''nmcli'', ''connection'', ''show'', ''--active''])"
  obtain s2 where r2: "verify_ip w cfg g1 s1 = (Return (g1 \<and> ip_ok cfg (w (executed (events s1)) [''ip'', ''addr'', ''show'', interface cfg])), s2)"
    and h2: "executed (events s2) = executed (events s1) @ [[''ip'', ''addr'', ''show'', interface cfg]]"
    using verify_ip_run [of w cfg g1 s1] by auto
  define g2 where "g2 = (g1 \<and> ip_ok cfg (w (executed (events s1)) [''ip'', ''addr'', ''show'', interface cfg]))"
  obtain s3 where r3: "verify_gateway w cfg g2 s2 = (Return (g2 \<and> gateway_ok cfg (w (executed (events s2)) [''ip'', ''route'', ''show'', ''default''])), s3)"
    and h3: "executed (events s3) = executed (events s2) @ [[''ip'', ''route'', ''show'', ''default'']]"
    using verify_gateway_run [of w cfg g2 s2] by auto
  define g3 where "g3 = (g2 \<and> gateway_ok cfg (w (executed (events s2)) [''ip'', ''route'', ''show'', ''default'']))"
  obtain s4 where r4: "verify_dns w cfg g3 s3 = (Return (g3 \<and> dns_ok cfg (w (executed (events s3)) [''cat'', ''/etc/resolv.conf''])), s4)"
    and h4: "executed (events s4) = executed (events s3) @ [[''cat'', ''/etc/resolv.conf'']]"
    using verify_dns_run [of w cfg g3 s3] by auto
  define g4 where "g4 = (g3 \<and> dns_ok cfg (w (executed (events s3)) [''cat'', ''/etc/resolv.conf'']))"
  obtain s5 where r5: "verify_ssid w cfg g4 s4 = (Return (g4 \<and> ssid_ok cfg (w (executed (events s4)) [''nmcli'', ''device'', ''wifi'', ''list'', ''--rescan'', ''no''])), s5)"
    using verify_ssid_run [of w cfg g4 s4] by auto
  have run: "fst (verify_connection w cfg st)
     = Return (g4 \<and> ssid_ok cfg (w (executed (events s4)) [''nmcli'', ''device'', ''wifi'', ''list'', ''--rescan'', ''no'']))"
    using r1 r2 r3 r4 r5
    by (simp add: verify_connection_def and_then_def before_def say_def emit_def return_def
        s0_def [symmetric] g1_def [symmetric] g2_def [symmetric] g3_def [symmetric]
        g4_def [symmetric])
  show ?thesis
    unfolding run g4_def g3_def g2_def g1_def h4 h3 h2 h1
    by (simp add: verify_output_def verify_commands_def h_def eval_nat_numeral)
qed

theorem verify_connection_checks_witness:
  "fst (verify_connection connected_world default_config (initial_state [] [])) = Return True
   \<and> fst (verify_connection unprivileged_world default_config (initial_state [] []))
       = Return False"
proof -
  have good:
    "active_ok default_config (verify_output connected_world default_config (initial_state [] []) 0)
     \<and> ip_ok default_config (verify_output connected_world default_config (initial_state [] []) 1)
     \<and> gateway_ok default_config (verify_output connected_world default_config (initial_state [] []) 2)
     \<and> dns_ok default_config (verify_output connected_world default_config (initial_state [] []) 3)
     \<and> ssid_ok default_config (verify_output connected_world default_config (initial_state [] []) 4)"
    by code_simp
  have bad:
    "\<not> active_ok default_config
         (verify_output unprivileged_world default_config (initial_state [] []) 0)"
    by code_simp
  show ?thesis
    using verify_connection_checks [where w = connected_world and cfg = default_config
        and st = "initial_state [] []"]
      verify_connection_checks [where w = unprivileged_world and cfg = default_config
        and st = "initial_state [] []"] good bad
    by simp
qed

section \<open>What the rewriting loops leave alone (C5)\<close>

text \<open>
  C5, as the source has it. The file is read in text mode, so its line ends \<open>\r\n\<close> and
  \<open>\r\<close> arrive as \<open>\n\<close>, and that is how every line is written back. With this
  translation of the line ends applied to the old content, the rewrite keeps the frame:
  the lines of the new file correspond one to one, in order, to the old lines, and every
  line that contains no target key is the same, byte for byte. This holds for the id patch
  of \<open>apply_configuration\<close> whenever the ids can be derived from an IP without line break,
  whatever the network part does afterwards, and for the role patch of
  \<open>configure_purpose\<close> whenever it accepts the input. A file without carriage return is
  not changed by the translation, so for such a file the frame is kept as the claim
  states it.
\<close>

theorem patch_keeps_frame:
  "(derive_ids (ip cfg) = Return (team_id, player_id) \<and> no_line_break (ip cfg) \<longrightarrow>
      frame_kept [''team_id'', ''player_id''] (universal_newlines (config_yaml st))
        (config_yaml (snd (apply_configuration w cfg st))))
   \<and> (read_current_purpose (py_readlines (config_yaml st)) = Return current_purpose
        \<and> stdin st = line # rest
        \<and> py_lower (py_strip line) \<in> set [''striker'', ''goal_keeper''] \<longrightarrow>
      frame_kept [''player_role''] (universal_newlines (config_yaml st))
        (config_yaml (snd (configure_purpose st))))
   \<and> (CR \<notin> set (config_yaml st) \<longrightarrow> universal_newlines (config_yaml st) = config_yaml st)"
proof (intro conjI impI)
  assume a: "derive_ids (ip cfg) = Return (team_id, player_id) \<and> no_line_break (ip cfg)"
  then have "no_line_break team_id" and "no_line_break player_id"
    using derive_ids_no_line_break by blast+
  then show "frame_kept [''team_id'', ''player_id''] (universal_newlines (config_yaml st))
        (config_yaml (snd (apply_configuration w cfg st)))"
    using a by (simp add: apply_configuration_file patched_ids_frame)
next
  assume a: "read_current_purpose (py_readlines (config_yaml st)) = Return current_purpose
        \<and> stdin st = line # rest
        \<and> py_lower (py_strip line) \<in> set [''striker'', ''goal_keeper'']"
  then have "config_yaml (snd (configure_purpose st))
           = patched_role_text (py_lower (py_strip line)) (config_yaml st)"
    using configure_purpose_file(1) by blast
  then show "frame_kept [''player_role''] (universal_newlines (config_yaml st))
        (config_yaml (snd (configure_purpose st)))"
    using a purpose_no_line_break patched_role_frame by presburger
next
  assume "CR \<notin> set (config_yaml st)"
  then show "universal_newlines (config_yaml st) = config_yaml st"
    by (rule universal_newlines_id)
qed

theorem patch_keeps_frame_witness:
  "derive_ids (ip default_config) = Return (''57'', ''45'')
   \<and> no_line_break (ip default_config)
   \<and> frame_kept [''team_id'', ''player_id''] (universal_newlines crlf_yaml)
        (config_yaml (snd (apply_configuration unprivileged_world default_config
                             (initial_state crlf_yaml []))))
   \<and> read_current_purpose (py_readlines example_yaml) = Return ''striker''
   \<and> py_lower (py_strip '' Goal_Keeper '') \<in> set [''striker'', ''goal_keeper'']
   \<and> frame_kept [''player_role''] (universal_newlines example_yaml)
        (config_yaml (snd (configure_purpose (initial_state example_yaml ['' Goal_Keeper '']))))
   \<and> CR \<notin> set example_yaml
   \<and> universal_newlines example_yaml = example_yaml"
proof -
  have ids: "derive_ids (ip default_config) = Return (''57'', ''45'')"
    by (simp add: derive_ids_def default_config_def)
  have nb: "no_line_break (ip default_config)"
    by (simp add: no_line_break_def default_config_def)
  have cur: "read_current_purpose (py_readlines example_yaml) = Return ''striker''"
    by code_simp
  have inp: "py_lower (py_strip '' Goal_Keeper '') \<in> set [''striker'', ''goal_keeper'']"
    by code_simp
  have nocr: "CR \<notin> set example_yaml"
    by (simp add: example_yaml_def)
  have frame_ids: "frame_kept [''team_id'', ''player_id''] (universal_newlines crlf_yaml)
        (config_yaml (snd (apply_configuration unprivileged_world default_config
                             (initial_state crlf_yaml []))))"
    using patch_keeps_frame [where cfg = default_config and team_id = "''57''"
        and player_id = "''45''" and w = unprivileged_world
        and st = "initial_state crlf_yaml []" and current_purpose = "[]" and line = "[]"
        and rest = "[]"] ids nb
    by (simp add: initial_state_def)
  have accepted: "read_current_purpose
           (py_readlines (config_yaml (initial_state example_yaml ['' Goal_Keeper '']))) =
         Return ''striker''
       \<and> stdin (initial_state example_yaml ['' Goal_Keeper '']) = '' Goal_Keeper '' # []
       \<and> py_lower (py_strip '' Goal_Keeper '') \<in> set [''striker'', ''goal_keeper'']"
    using cur inp by (simp add: initial_state_def)
  have "frame_kept [''player_role'']
          (universal_newlines (config_yaml (initial_state example_yaml ['' Goal_Keeper ''])))
          (config_yaml (snd (configure_purpose (initial_state example_yaml ['' Goal_Keeper '']))))"
    using patch_keeps_frame [where cfg = default_config and team_id = "''57''"
        and player_id = "''45''" and w = unprivileged_world
        and st = "initial_state example_yaml ['' Goal_Keeper '']"
        and current_purpose = "''striker''" and line = "'' Goal_Keeper ''" and rest = "[]"]
      accepted
    by blast
  then have frame_role: "frame_kept [''player_role''] (universal_newlines example_yaml)
        (config_yaml (snd (configure_purpose (initial_state example_yaml ['' Goal_Keeper '']))))"
    by (simp add: initial_state_def)
  have same: "universal_newlines example_yaml = example_yaml"
    using nocr by (rule universal_newlines_id)
  show ?thesis
    using ids nb frame_ids cur inp frame_role nocr same by blast
qed

text \<open>
  As the claim states it, with the lines of the file as they are stored, the frame is not
  kept: in a file with the line ends \<open>\r\n\<close> the line \<open>name: x\<close>, which holds no key,
  loses its carriage return.
\<close>

theorem patch_changes_crlf_counterexample:
  "\<not> frame_kept [''team_id'', ''player_id''] crlf_yaml
       (config_yaml (snd (apply_configuration unprivileged_world default_config
                            (initial_state crlf_yaml []))))"
  by code_simp

section \<open>Patching twice (C6)\<close>

text \<open>
  C6, as the source has it. Applying the id patch twice in succession leaves the file
  that one application leaves, for every initial content and every answers of the
  commands, when the ids are derived from an IP without line break and the player id does
  not contain the text \<open>team_id\<close>; all decimal octets are such values. Applying the
  role patch twice with inputs that normalise to the same accepted purpose leaves the file
  that one application leaves, and the second run does return.
\<close>

theorem patch_twice_same:
  "(derive_ids (ip cfg) = Return (team_id, player_id) \<and> no_line_break (ip cfg)
      \<and> \<not> sublist ''team_id'' player_id \<longrightarrow>
      config_yaml (snd (apply_configuration w2 cfg (snd (apply_configuration w1 cfg st))))
        = config_yaml (snd (apply_configuration w1 cfg st)))
   \<and> (read_current_purpose (py_readlines (config_yaml st)) = Return current_purpose
        \<and> stdin st = line1 # line2 # rest
        \<and> py_lower (py_strip line1) \<in> set [''striker'', ''goal_keeper'']
        \<and> py_lower (py_strip line2) = py_lower (py_strip line1) \<longrightarrow>
      fst (configure_purpose (snd (configure_purpose st))) = Return ()
      \<and> config_yaml (snd (configure_purpose (snd (configure_purpose st))))
            = config_yaml (snd (configure_purpose st)))"
  using apply_configuration_twice [of cfg team_id player_id w2 w1 st]
    configure_purpose_twice [of st current_purpose line1 line2 rest]
  by blast

theorem patch_twice_same_witness:
  "derive_ids (ip default_config) = Return (''57'', ''45'')
   \<and> no_line_break (ip default_config)
   \<and> \<not> sublist ''team_id'' ''45''
   \<and> config_yaml (snd (apply_configuration connected_world default_config
                          (snd (apply_configuration unprivileged_world default_config
                                  (initial_state crlf_yaml [])))))
       = config_yaml (snd (apply_configuration unprivileged_world default_config
                             (initial_state crlf_yaml [])))
   \<and> read_current_purpose (py_readlines example_yaml) = Return ''striker''
   \<and> py_lower (py_strip ''striker'') \<in> set [''striker'', ''goal_keeper'']
   \<and> py_lower (py_strip ''STRIKER '') = py_lower (py_strip ''striker'')
   \<and> fst (configure_purpose (snd (configure_purpose
              (initial_state example_yaml [''striker'', ''STRIKER ''])))) = Return ()
   \<and> config_yaml (snd (configure_purpose (snd (configure_purpose
              (initial_state example_yaml [''striker'', ''STRIKER ''])))))
       = config_yaml (snd (configure_purpose
              (initial_state example_yaml [''striker'', ''STRIKER ''])))"
proof -
  have ids: "derive_ids (ip default_config) = Return (''57'', ''45'')"
    by (simp add: derive_ids_def default_config_def)
  have nb: "no_line_break (ip default_config)"
    by (simp add: no_line_break_def default_config_def)
  have clean: "\<not> sublist ''team_id'' ''45''"
    by code_simp
  have cur: "read_current_purpose (py_readlines example_yaml) = Return ''striker''"
    by code_simp
  have inp1: "py_lower (py_strip ''striker'') \<in> set [''striker'', ''goal_keeper'']"
    by code_simp
  have inp2: "py_lower (py_strip ''STRIKER '') = py_lower (py_strip ''striker'')"
    by code_simp
  have twice_ids: "config_yaml (snd (apply_configuration connected_world default_config
                          (snd (apply_configuration unprivileged_world default_config
                                  (initial_state crlf_yaml [])))))
       = config_yaml (snd (apply_configuration unprivileged_world default_config
                             (initial_state crlf_yaml [])))"
    using patch_twice_same [where cfg = default_config and team_id = "''57''"
        and player_id = "''45''" and ?w1.0 = unprivileged_world and ?w2.0 = connected_world
        and st = "initial_state crlf_yaml []" and current_purpose = "[]" and ?line1.0 = "[]"
        and ?line2.0 = "[]" and rest = "[]"] ids nb clean
    by blast
  have accepted: "read_current_purpose
           (py_readlines (config_yaml (initial_state example_yaml [''striker'', ''STRIKER '']))) =
         Return ''striker''
       \<and> stdin (initial_state example_yaml [''striker'', ''STRIKER ''])
           = ''striker'' # ''STRIKER '' # []
       \<and> py_lower (py_strip ''striker'') \<in> set [''striker'', ''goal_keeper'']
       \<and> py_lower (py_strip ''STRIKER '') = py_lower (py_strip ''striker'')"
    using cur inp1 inp2 by (simp add: initial_state_def)
  have twice_role: "fst (configure_purpose (snd (configure_purpose
              (initial_state example_yaml [''striker'', ''STRIKER ''])))) = Return ()
   \<and> config_yaml (snd (configure_purpose (snd (configure_purpose
              (initial_state example_yaml [''striker'', ''STRIKER ''])))))
       = config_yaml (snd (configure_purpose
              (initial_state example_yaml [''striker'', ''STRIKER ''])))"
    using patch_twice_same [where cfg = default_config and team_id = "''57''"
        and player_id = "''45''" and ?w1.0 = unprivileged_world and ?w2.0 = connected_world
        and st = "initial_state example_yaml [''striker'', ''STRIKER '']"
        and current_purpose = "''striker''" and ?line1.0 = "''striker''"
        and ?line2.0 = "''STRIKER ''" and rest = "[]"] accepted
    by blast
  show ?thesis
    using ids nb clean twice_ids cur inp1 inp2 twice_role by blast
qed

text \<open>
  As the claim states it, for every value, the id patch is not idempotent: with the IP
  \<open>192.168.57.team_id\<close> the player id is the text \<open>team_id\<close>, the first run writes a
  player line that contains it, and the second run rewrites that line as the team line.
\<close>

theorem patch_twice_differs_counterexample:
  "config_yaml (snd (apply_configuration unprivileged_world
                       (default_config\<lparr>ip := ''192.168.57.team_id''\<rparr>)
                       (snd (apply_configuration unprivileged_world
                               (default_config\<lparr>ip := ''192.168.57.team_id''\<rparr>)
                               (initial_state player_only_yaml [])))))
     \<noteq> config_yaml (snd (apply_configuration unprivileged_world
                             (default_config\<lparr>ip := ''192.168.57.team_id''\<rparr>)
                             (initial_state player_only_yaml [])))"
  by code_simp

end
